theory Spec2Isabelle
  imports Complex_Main "HOL-Library.Sublist" "HOL-Library.AList" "HOL-Library.Multiset"
begin

section \<open>JavaScript strings\<close>

text \<open>
  A JavaScript string is modelled as a HOL \<open>string\<close>: a list of 8-bit characters, one per
  code unit. The model therefore covers texts whose code units lie in U+0000..U+00FF
  (ASCII and Latin-1); \<open>length\<close> is \<open>String.prototype.length\<close>, \<open>@\<close> is concatenation
  and \<open>take n\<close> is \<open>substring(0, n)\<close>.
\<close>

definition upperAscii :: string where
  "upperAscii = ''ABCDEFGHIJKLMNOPQRSTUVWXYZ''"

definition lowerAscii :: string where
  "lowerAscii = ''abcdefghijklmnopqrstuvwxyz''"

definition upperLatin1 :: string where
  "upperLatin1 =
     [CHR 0xC0, CHR 0xC1, CHR 0xC2, CHR 0xC3, CHR 0xC4, CHR 0xC5, CHR 0xC6, CHR 0xC7,
      CHR 0xC8, CHR 0xC9, CHR 0xCA, CHR 0xCB, CHR 0xCC, CHR 0xCD, CHR 0xCE, CHR 0xCF,
      CHR 0xD0, CHR 0xD1, CHR 0xD2, CHR 0xD3, CHR 0xD4, CHR 0xD5, CHR 0xD6,
      CHR 0xD8, CHR 0xD9, CHR 0xDA, CHR 0xDB, CHR 0xDC, CHR 0xDD, CHR 0xDE]"

definition lowerLatin1 :: string where
  "lowerLatin1 =
     [CHR 0xE0, CHR 0xE1, CHR 0xE2, CHR 0xE3, CHR 0xE4, CHR 0xE5, CHR 0xE6, CHR 0xE7,
      CHR 0xE8, CHR 0xE9, CHR 0xEA, CHR 0xEB, CHR 0xEC, CHR 0xED, CHR 0xEE, CHR 0xEF,
      CHR 0xF0, CHR 0xF1, CHR 0xF2, CHR 0xF3, CHR 0xF4, CHR 0xF5, CHR 0xF6,
      CHR 0xF8, CHR 0xF9, CHR 0xFA, CHR 0xFB, CHR 0xFC, CHR 0xFD, CHR 0xFE]"

definition asciiLower :: "char \<Rightarrow> char" where
  \<comment> \<open>The case folding of a regular expression with the \<open>i\<close> flag, as far as the ASCII
      letters of the patterns below are concerned: only \<open>A\<close>..\<open>Z\<close> fold onto \<open>a\<close>..\<open>z\<close>.\<close>
  "asciiLower c = (case map_of (zip upperAscii lowerAscii) c of Some l \<Rightarrow> l | None \<Rightarrow> c)"

definition toLowerChar :: "char \<Rightarrow> char" where
  "toLowerChar c =
     (case map_of (zip (upperAscii @ upperLatin1) (lowerAscii @ lowerLatin1)) c of
        Some l \<Rightarrow> l | None \<Rightarrow> c)"

definition toLowerCase :: "string \<Rightarrow> string" where
  \<comment> \<open>\<open>String.prototype.toLowerCase\<close> on the modelled code units.\<close>
  "toLowerCase s = map toLowerChar s"

definition isSpace :: "char \<Rightarrow> bool" where
  \<comment> \<open>The class \<open>\s\<close>, and the characters \<open>trim\<close> strips: TAB, LF, VT, FF, CR, SP, NBSP.\<close>
  "isSpace c = (c \<in> set [CHR 0x09, CHR 0x0A, CHR 0x0B, CHR 0x0C, CHR 0x0D, CHR 0x20, CHR 0xA0])"

definition isDigit :: "char \<Rightarrow> bool" where
  \<comment> \<open>The class \<open>\d\<close>.\<close>
  "isDigit c = (c \<in> set ''0123456789'')"

definition trim :: "string \<Rightarrow> string" where
  "trim s = rev (dropWhile isSpace (rev (dropWhile isSpace s)))"

fun includes_str :: "string \<Rightarrow> string \<Rightarrow> bool" where
  \<comment> \<open>\<open>s.includes(t)\<close>: \<open>t\<close> occurs in \<open>s\<close> as a contiguous run.\<close>
  "includes_str [] t = (t = [])"
| "includes_str (c # cs) t = (prefix t (c # cs) \<or> includes_str cs t)"

definition truthy :: "string option \<Rightarrow> bool" where
  \<comment> \<open>Truthiness of an optional string: neither \<open>undefined\<close> nor the empty string.\<close>
  "truthy v = (case v of None \<Rightarrow> False | Some s \<Rightarrow> s \<noteq> [])"

section \<open>Data model\<close>

text \<open>
  Dates are instants in milliseconds since the epoch. An instant beyond the range of
  \<open>Date\<close> (an invalid date, which is still an object and not \<open>null\<close>) is not told apart
  from the others.
\<close>

type_synonym date = int

definition msPerDay :: int where
  "msPerDay = 1000 * 60 * 60 * 24"

definition msPerHour :: int where
  "msPerHour = 1000 * 60 * 60"

text \<open>
  \<open>getDate\<close>, \<open>setDate\<close>, \<open>getHours\<close> and \<open>setHours\<close> read and write the fields of local
  time. The time zone of the host is the pair of conversions that the language standard
  names \<open>LocalTime\<close>, from an instant to its local time value, and \<open>UTC\<close>, from a local
  time value to an instant.
\<close>

record TimeZone =
  localTime :: "int \<Rightarrow> int"
  utcTime :: "int \<Rightarrow> int"

definition setDateBack :: "TimeZone \<Rightarrow> date \<Rightarrow> nat \<Rightarrow> date" where
  \<comment> \<open>\<open>d.setDate(d.getDate() - n)\<close>, the new value of \<open>d\<close>. \<open>setDate\<close> keeps the year, the
      month and the time within the day of the local time value and counts the day of
      the month on from the first of that month, below 1 too: the local time value
      moves back \<open>n\<close> whole days, and \<open>UTC\<close> makes the instant of it.\<close>
  "setDateBack zone d n = utcTime zone (localTime zone d - int n * msPerDay)"

definition setHoursBack :: "TimeZone \<Rightarrow> date \<Rightarrow> nat \<Rightarrow> date" where
  \<comment> \<open>\<open>d.setHours(d.getHours() - n)\<close>, the new value of \<open>d\<close>. \<open>setHours\<close> keeps the day, the
      minutes, the seconds and the milliseconds of the local time value and counts the
      hours on from the start of that day, below 0 too.\<close>
  "setHoursBack zone d n = utcTime zone (localTime zone d - int n * msPerHour)"

definition fixedOffset :: "int \<Rightarrow> TimeZone" where
  \<comment> \<open>A time zone without clock changes, \<open>off\<close> milliseconds ahead of UTC.\<close>
  "fixedOffset off = \<lparr> localTime = (\<lambda>t. t + off), utcTime = (\<lambda>l. l - off) \<rparr>"

definition newYork2023 :: TimeZone where
  \<comment> \<open>\<open>America/New_York\<close> from March 2023 to March 2024: four hours behind UTC until
      daylight saving time ends on 2023-11-05 at 06:00 UTC, five hours behind from then
      on. The standard reads a local time that occurs twice with the offset before the
      change.\<close>
  "newYork2023 =
     \<lparr> localTime = (\<lambda>t. if t < 1699164000000 then t - 4 * msPerHour else t - 5 * msPerHour),
       utcTime = (\<lambda>l. if l < 1699164000000 - 4 * msPerHour then l + 4 * msPerHour
                      else l + 5 * msPerHour) \<rparr>"

record LocationPref =
  city :: "string option"
  radius :: "rat option"
  remote :: "bool option"
  hybrid :: "bool option"
  timezone :: "string option"

record SalaryPref =
  min_salary :: "rat option"
  max_salary :: "rat option"
  salary_currency :: "string option"
  salary_type :: "string option"

text \<open>
  \<open>SearchRefinements\<close>: the fields \<open>location\<close> and \<open>salary\<close> of the interface are named
  \<open>locationPref\<close> and \<open>salaryPref\<close> here, since a job listing has fields of the same names.
  The fields \<open>eligibility\<close> and \<open>exclusions\<close> are read by none of the functions below.
\<close>

record SearchRefinements =
  jobTitles :: "string list"
  synonyms :: "string list"
  locationPref :: LocationPref
  seniority :: string
  mustHaveSkills :: "string list"
  niceToHaveSkills :: "string list"
  salaryPref :: SalaryPref
  contractType :: string
  dateRange :: rat
  targetCompanies :: "string list option"

text \<open>
  \<open>JobListing\<close> and its extension \<open>EnhancedJobListing\<close>; the field \<open>id\<close> is named \<open>jobId\<close>.
  Optional fields are options. \<open>applicationDeadline\<close>, \<open>companyInfo\<close>,
  \<open>interviewQuestions\<close> and \<open>salaryNegotiation\<close> are read by none of the functions below.
\<close>

record JobListing =
  jobId :: string
  title :: string
  company :: string
  location :: string
  description :: string
  salary :: "string option"
  currency :: "string option"
  employmentType :: "string option"
  workplaceType :: "string option"
  requirements :: "string list option"
  responsibilities :: "string list option"
  postedDate :: date
  sourceUrl :: string

record EnhancedJobListing = JobListing +
  matchScore :: int
  matchReasons :: "string list"
  missingSkills :: "string list"

section \<open>Numbers in strings\<close>

definition digitsOnly :: "string \<Rightarrow> string" where
  \<comment> \<open>\<open>s.replace(/\D/g, '')\<close>\<close>
  "digitsOnly s = filter isDigit s"

definition digitVal :: "char \<Rightarrow> nat" where
  "digitVal c =
     (case map_of (zip ''0123456789'' [0, 1, 2, 3, 4, 5, 6, 7, 8, 9]) c of
        Some d \<Rightarrow> d | None \<Rightarrow> 0)"

definition digitsValue :: "string \<Rightarrow> nat" where
  \<comment> \<open>The number a run of decimal digits denotes.\<close>
  "digitsValue ds = foldl (\<lambda>n c. 10 * n + digitVal c) 0 ds"

definition parseInt :: "string \<Rightarrow> nat option" where
  \<comment> \<open>\<open>parseInt\<close> on the strings it is called with here, which start with a digit or are
      empty: the value of the leading digits, \<open>None\<close> for \<open>NaN\<close>. Values are exact
      (the source computes in doubles, exact up to \<open>2^53\<close>).\<close>
  "parseInt s =
     (let ds = takeWhile isDigit s
      in if ds = [] then None else Some (digitsValue ds))"

definition digitChar :: "nat \<Rightarrow> char" where
  "digitChar d = ''0123456789'' ! d"

fun decimal :: "nat \<Rightarrow> string" where
  \<comment> \<open>A natural number in a template literal.\<close>
  "decimal n = (if n < 10 then [digitChar n] else decimal (n div 10) @ [digitChar (n mod 10)])"

declare decimal.simps [simp del]

section \<open>Match score and match reasons\<close>

definition calculateMatchScore :: "'a JobListing_scheme \<Rightarrow> SearchRefinements \<Rightarrow> int" where
  "calculateMatchScore job refinements =
     (let score = 70;
          score = (case city (locationPref refinements) of
                     Some c \<Rightarrow> if c \<noteq> [] \<and> includes_str (location job) c then score + 10 else score
                   | None \<Rightarrow> score);
          score = (if remote (locationPref refinements) = Some True
                        \<and> workplaceType job = Some ''Remote''
                   then score + 10 else score);
          score = (case (salary job, min_salary (salaryPref refinements)) of
                     (Some s, Some m) \<Rightarrow>
                       if s \<noteq> [] \<and> m \<noteq> 0
                       then (case parseInt (digitsOnly s) of
                               Some jobSalary \<Rightarrow> if m \<le> of_nat jobSalary then score + 5 else score
                             | None \<Rightarrow> score)
                       else score
                   | _ \<Rightarrow> score);
          jobText = toLowerCase (title job @ '' '' @ description job);
          score = fold (\<lambda>skill score.
                          if includes_str jobText (toLowerCase skill) then score + 2 else score)
                       (mustHaveSkills refinements) score
      in min score 95)"

definition generateMatchReasons :: "'a JobListing_scheme \<Rightarrow> SearchRefinements \<Rightarrow> string list" where
  "generateMatchReasons job refinements =
     (let reasons = [];
          reasons = (case city (locationPref refinements) of
                       Some c \<Rightarrow> if c \<noteq> [] \<and> includes_str (location job) c
                                 then reasons @ [''Location match''] else reasons
                     | None \<Rightarrow> reasons);
          reasons = (if remote (locationPref refinements) = Some True
                          \<and> workplaceType job = Some ''Remote''
                     then reasons @ [''Remote opportunity''] else reasons);
          reasons = (if truthy (salary job) then reasons @ [''Competitive salary''] else reasons);
          jobText = toLowerCase (title job @ '' '' @ description job);
          matchedSkills = filter (\<lambda>skill. includes_str jobText (toLowerCase skill))
                                 (mustHaveSkills refinements);
          reasons = (if length matchedSkills > 0
                     then reasons @ [''Matches '' @ decimal (length matchedSkills) @ '' key skills'']
                     else reasons)
      in take 3 reasons)"

text \<open>
  The bonuses as the specification words them: the conditions under which each one fires.
\<close>

definition locationFires :: "'a JobListing_scheme \<Rightarrow> SearchRefinements \<Rightarrow> bool" where
  "locationFires job r =
     (\<exists>c. city (locationPref r) = Some c \<and> c \<noteq> [] \<and> sublist c (location job))"

definition remoteFires :: "'a JobListing_scheme \<Rightarrow> SearchRefinements \<Rightarrow> bool" where
  "remoteFires job r =
     (remote (locationPref r) = Some True \<and> workplaceType job = Some ''Remote'')"

definition salaryFires :: "'a JobListing_scheme \<Rightarrow> SearchRefinements \<Rightarrow> bool" where
  \<comment> \<open>The salary parses to a number that is at least \<open>refinements.salary.min\<close>.\<close>
  "salaryFires job r =
     (\<exists>s m n. salary job = Some s \<and> s \<noteq> [] \<and> min_salary (salaryPref r) = Some m \<and> m \<noteq> 0
        \<and> parseInt (digitsOnly s) = Some n \<and> m \<le> of_nat n)"

definition skillHits :: "'a JobListing_scheme \<Rightarrow> SearchRefinements \<Rightarrow> string list" where
  \<comment> \<open>The must-have skills whose lowercase form is a substring of the lowercased title,
      a space and the description.\<close>
  "skillHits job r =
     filter (\<lambda>skill. sublist (toLowerCase skill)
                              (toLowerCase (title job @ '' '' @ description job)))
            (mustHaveSkills r)"

definition skillNote :: "nat \<Rightarrow> string" where
  "skillNote k = ''Matches '' @ decimal k @ '' key skills''"

text \<open>A listing and refinements to evaluate the functions on.\<close>

definition exampleJob :: EnhancedJobListing where
  "exampleJob =
     \<lparr> jobId = ''job_1'', title = ''Backend Engineer'', company = ''Acme Co'',
       location = ''Austin, TX'', description = ''We use Python.'',
       salary = Some ''Competitive'', currency = Some ''USD'',
       employmentType = Some ''Full-time'', workplaceType = Some ''Onsite'',
       requirements = Some [], responsibilities = Some [], postedDate = 0,
       sourceUrl = ''https://example.com/a'',
       matchScore = 70, matchReasons = [], missingSkills = [] \<rparr>"

definition exampleRefinements :: SearchRefinements where
  "exampleRefinements =
     \<lparr> jobTitles = [''Software Engineer''], synonyms = [],
       locationPref = \<lparr> city = Some ''Austin'', radius = None, remote = Some False,
                        hybrid = None, timezone = None \<rparr>,
       seniority = ''mid'', mustHaveSkills = [''Python''], niceToHaveSkills = [],
       salaryPref = \<lparr> min_salary = Some 50000, max_salary = None,
                      salary_currency = None, salary_type = None \<rparr>,
       contractType = ''full-time'', dateRange = 3, targetCompanies = None \<rparr>"

section \<open>Freshness of a posting\<close>

definition matchesCI :: "string \<Rightarrow> string \<Rightarrow> bool" where
  \<comment> \<open>A literal of lowercase letters matches at the head of \<open>xs\<close>, under the \<open>i\<close> flag.\<close>
  "matchesCI pat xs = (map asciiLower (take (length pat) xs) = pat)"

fun testCI :: "string \<Rightarrow> string \<Rightarrow> bool" where
  \<comment> \<open>\<open>/pat/i.test(text)\<close> for a literal \<open>pat\<close>: a match at some position.\<close>
  "testCI pat [] = matchesCI pat []"
| "testCI pat (c # cs) = (matchesCI pat (c # cs) \<or> testCI pat cs)"

definition some1 :: "(char \<Rightarrow> bool) \<Rightarrow> string \<Rightarrow> string option" where
  \<comment> \<open>One or more characters of a class, as many as there are (\<open>\s+\<close>): what follows
      them. What follows starts outside the class, so giving characters back never helps.\<close>
  "some1 P xs = (case xs of [] \<Rightarrow> None | c # cs \<Rightarrow> if P c then Some (dropWhile P cs) else None)"

definition unitAgoHere :: "string \<Rightarrow> string \<Rightarrow> bool" where
  \<comment> \<open>\<open>unit[s]?\s+ago\<close> matches at the head of \<open>xs\<close>, under the \<open>i\<close> flag. An \<open>s\<close> after the
      unit is taken: without it the \<open>\s+\<close> would have to match that \<open>s\<close>.\<close>
  "unitAgoHere unit xs =
     (matchesCI unit xs \<and>
      (let r = drop (length unit) xs;
           r = (case r of [] \<Rightarrow> r | c # cs \<Rightarrow> if asciiLower c = CHR ''s'' then cs else r)
       in case some1 isSpace r of None \<Rightarrow> False | Some r \<Rightarrow> matchesCI ''ago'' r))"

fun testUnitAgo :: "string \<Rightarrow> string \<Rightarrow> bool" where
  \<comment> \<open>\<open>/unit[s]?\s+ago/i.test(text)\<close>\<close>
  "testUnitAgo unit [] = False"
| "testUnitAgo unit (c # cs) = (unitAgoHere unit (c # cs) \<or> testUnitAgo unit cs)"

definition agoHere :: "string \<Rightarrow> string \<Rightarrow> string option" where
  \<comment> \<open>\<open>(\d+)\s+unit[s]?\s+ago\<close> matches at the head of \<open>xs\<close>: its group 1, the digits.\<close>
  "agoHere unit xs =
     (let ds = takeWhile isDigit xs
      in if ds = [] then None
         else case some1 isSpace (dropWhile isDigit xs) of
                None \<Rightarrow> None
              | Some r \<Rightarrow> if unitAgoHere unit r then Some ds else None)"

fun matchAgo :: "string \<Rightarrow> string \<Rightarrow> string option" where
  \<comment> \<open>\<open>text.match(/(\d+)\s+unit[s]?\s+ago/i)\<close>: group 1 of the leftmost match, \<open>None\<close> for
      no match.\<close>
  "matchAgo unit [] = None"
| "matchAgo unit (c # cs) =
     (case agoHere unit (c # cs) of Some ds \<Rightarrow> Some ds | None \<Rightarrow> matchAgo unit cs)"

definition extractJobDate :: "TimeZone \<Rightarrow> date \<Rightarrow> string \<Rightarrow> date option" where
  \<comment> \<open>\<open>zone\<close> is the time zone of the host and \<open>now\<close> the clock reading \<open>new Date()\<close>;
      \<open>None\<close> is \<open>null\<close>. Group 1 of a match is a non-empty run of digits, whose
      \<open>parseInt\<close> is its value.\<close>
  "extractJobDate zone now text =
     (if text = [] then None
      else if testCI ''today'' text then Some now
      else if testCI ''yesterday'' text then Some (setDateBack zone now 1)
      else case matchAgo ''hour'' text of
        Some g \<Rightarrow> (let hours = digitsValue g in Some (setHoursBack zone now hours))
      | None \<Rightarrow>
       (case matchAgo ''day'' text of
          Some g \<Rightarrow> (let days = digitsValue g
                     in if days > 4 then None else Some (setDateBack zone now days))
        | None \<Rightarrow>
         (case matchAgo ''week'' text of
            Some g \<Rightarrow> (let weeks = digitsValue g
                       in if weeks \<ge> 1 then None else Some (setDateBack zone now (weeks * 7)))
          | None \<Rightarrow> (if testUnitAgo ''month'' text then None else None))))"

text \<open>
  The phrases of the specification: a run of digits, white space, the unit in any mix of
  upper and lower case, white space, \<open>ago\<close>.
\<close>

definition spaces :: "string \<Rightarrow> bool" where
  "spaces ws = (ws \<noteq> [] \<and> list_all isSpace ws)"

definition digits :: "string \<Rightarrow> bool" where
  "digits ds = (ds \<noteq> [] \<and> list_all isDigit ds)"

definition spelt :: "string \<Rightarrow> string \<Rightarrow> bool" where
  "spelt w u = (map asciiLower u = w)"

definition defaultRefinements :: SearchRefinements where
  \<comment> \<open>The refinements \<open>performEnhancedSearch\<close> builds when it is given none.\<close>
  "defaultRefinements =
     \<lparr> jobTitles = [], synonyms = [],
       locationPref = \<lparr> city = None, radius = None, remote = Some True,
                        hybrid = None, timezone = None \<rparr>,
       seniority = ''mid'', mustHaveSkills = [], niceToHaveSkills = [],
       salaryPref = \<lparr> min_salary = None, max_salary = None,
                      salary_currency = None, salary_type = None \<rparr>,
       contractType = ''full-time'', dateRange = 3, targetCompanies = Some [] \<rparr>"

section \<open>Quality filter\<close>

definition emptyList :: "string list option \<Rightarrow> bool" where
  \<comment> \<open>\<open>!xs || xs.length === 0\<close>\<close>
  "emptyList xs = (case xs of None \<Rightarrow> True | Some l \<Rightarrow> length l = 0)"

definition qualityJob :: "EnhancedJobListing \<Rightarrow> bool" where
  \<comment> \<open>The callback of \<open>filterQualityJobs\<close>, one early return after the other.\<close>
  "qualityJob job =
     (if title job = [] \<or> company job = [] \<or> description job = [] then False
      else if length (title job) < 5 \<or> title job = ''Job Opening'' then False
      else if company job = ''Company'' \<or> length (company job) < 2 then False
      else if length (description job) < 100
                \<or> includes_str (description job) ''Please visit the job page'' then False
      else if emptyList (requirements job) \<and> emptyList (responsibilities job) then False
      else True)"

definition filterQualityJobs :: "EnhancedJobListing list \<Rightarrow> EnhancedJobListing list" where
  "filterQualityJobs jobs = filter qualityJob jobs"

text \<open>
  The quality predicate as the specification words it: every condition must hold.
\<close>

definition qualitySpec :: "EnhancedJobListing \<Rightarrow> bool" where
  "qualitySpec job =
     ((title job \<noteq> [] \<and> 5 \<le> length (title job) \<and> title job \<noteq> ''Job Opening'')
      \<and> (company job \<noteq> [] \<and> 2 \<le> length (company job) \<and> company job \<noteq> ''Company'')
      \<and> (description job \<noteq> [] \<and> 100 \<le> length (description job)
           \<and> \<not> sublist ''Please visit the job page'' (description job))
      \<and> ((\<exists>l. requirements job = Some l \<and> l \<noteq> [])
           \<or> (\<exists>l. responsibilities job = Some l \<and> l \<noteq> [])))"

section \<open>Deduplication\<close>

text \<open>
  The two signatures of a listing. \<open>uniqueJobs\<close> is a \<open>Map\<close> from ids to listings: an
  association list in insertion order, where setting a key that is present replaces its
  value in place. \<open>seenTitles\<close> is the set of recorded signatures.
\<close>

definition titleCompany :: "EnhancedJobListing \<Rightarrow> string" where
  "titleCompany job = trim (toLowerCase (title job)) @ ''_'' @ trim (toLowerCase (company job))"

definition titleLocation :: "EnhancedJobListing \<Rightarrow> string" where
  "titleLocation job = trim (toLowerCase (title job)) @ ''_'' @ trim (toLowerCase (location job))"

definition dedupStep ::
  "(string \<times> EnhancedJobListing) list \<times> string set \<Rightarrow> EnhancedJobListing
     \<Rightarrow> (string \<times> EnhancedJobListing) list \<times> string set" where
  \<comment> \<open>One round of the loop of \<open>removeDuplicateJobs\<close>; each \<open>continue\<close> leaves the state
      as it is. Only the title-company signature is ever added to \<open>seenTitles\<close>.\<close>
  "dedupStep st job =
     (case st of (uniqueJobs, seenTitles) \<Rightarrow>
        if title job = [] \<or> company job = [] \<or> title job = ''Job Opening'' then st
        else if description job = [] \<or> length (description job) < 100 then st
        else if titleCompany job \<in> seenTitles \<or> titleLocation job \<in> seenTitles then st
        else (AList.update (jobId job) job uniqueJobs, insert (titleCompany job) seenTitles))"

definition removeDuplicateJobs :: "EnhancedJobListing list \<Rightarrow> EnhancedJobListing list" where
  "removeDuplicateJobs jobs = map snd (fst (foldl dedupStep ([], {}) jobs))"

text \<open>The listings that pass the two guards at the head of the loop.\<close>

definition sufficientData :: "EnhancedJobListing \<Rightarrow> bool" where
  "sufficientData job =
     (title job \<noteq> [] \<and> company job \<noteq> [] \<and> title job \<noteq> ''Job Opening''
      \<and> 100 \<le> length (description job))"

text \<open>The invariant of the loop, over the listings \<open>J\<close> it has been given.\<close>

definition dedupInv :: "(string \<times> EnhancedJobListing) list \<times> string set \<Rightarrow> EnhancedJobListing set \<Rightarrow> bool" where
  "dedupInv st J =
     (case st of (U, S) \<Rightarrow>
        distinct (map (titleCompany \<circ> snd) U)
        \<and> (\<forall>(k, j) \<in> set U. titleCompany j \<in> S \<and> sufficientData j \<and> j \<in> J))"

definition longJob :: EnhancedJobListing where
  "longJob = exampleJob\<lparr>description := replicate 100 (CHR ''x'')\<rparr>"

definition repostedJob :: "EnhancedJobListing \<Rightarrow> EnhancedJobListing" where
  "repostedJob job = job\<lparr>jobId := ''job_2'', sourceUrl := ''https://example.com/b''\<rparr>"

section \<open>Final ordering\<close>

text \<open>
  \<open>Array.prototype.sort\<close> with a comparator is a stable sort: insertion from the right,
  each element placed before the first one it does not come after.
\<close>

fun insort_cmp :: "('a \<Rightarrow> 'a \<Rightarrow> int) \<Rightarrow> 'a \<Rightarrow> 'a list \<Rightarrow> 'a list" where
  "insort_cmp cmp x [] = [x]"
| "insort_cmp cmp x (y # ys) = (if cmp x y \<le> 0 then x # y # ys else y # insort_cmp cmp x ys)"

definition sort_cmp :: "('a \<Rightarrow> 'a \<Rightarrow> int) \<Rightarrow> 'a list \<Rightarrow> 'a list" where
  "sort_cmp cmp xs = foldr (insort_cmp cmp) xs []"

definition compareJobs :: "EnhancedJobListing \<Rightarrow> EnhancedJobListing \<Rightarrow> int" where
  "compareJobs a b =
     (let dateA = postedDate a; dateB = postedDate b
      in if dateB \<noteq> dateA then dateB - dateA else matchScore b - matchScore a)"

definition freshEnough :: "date \<Rightarrow> EnhancedJobListing \<Rightarrow> bool" where
  "freshEnough now job = ((now - postedDate job) div msPerDay \<le> 4)"

text \<open>
  \<open>searchWithRefinements\<close> first queries the search provider and resolves the result pages;
  \<open>collected\<close> is the outcome of that part, the list \<open>allJobs\<close> or an exception. What
  follows is the rest of the function; \<open>now\<close> is the clock reading of the date filter.
\<close>

datatype 'a outcome = Returned 'a | Thrown

definition searchWithRefinements :: "date \<Rightarrow> EnhancedJobListing list outcome \<Rightarrow> EnhancedJobListing list" where
  "searchWithRefinements now collected =
     (case collected of
        Thrown \<Rightarrow> []
      | Returned allJobs \<Rightarrow>
          (let freshJobs = filter (freshEnough now) allJobs;
               uniqueJobs = removeDuplicateJobs freshJobs;
               uniqueJobs = filterQualityJobs uniqueJobs;
               uniqueJobs = sort_cmp compareJobs uniqueJobs;
               finalJobs = take 20 uniqueJobs
           in finalJobs))"

text \<open>The order of the specification: posted date descending, then match score descending.\<close>

definition newestThenBest :: "EnhancedJobListing \<Rightarrow> EnhancedJobListing \<Rightarrow> bool" where
  "newestThenBest a b =
     (postedDate b < postedDate a \<or> (postedDate a = postedDate b \<and> matchScore b \<le> matchScore a))"

section \<open>Values of type any\<close>

text \<open>
  Values of type \<open>any\<close>: what \<open>JSON.parse\<close> returns and what reading a property yields.
  A number is kept as a rational.
\<close>

datatype jsval =
    JUndefined
  | JNull
  | JBool bool
  | JNum rat
  | JStr string
  | JArr "jsval list"
  | JObj "(string \<times> jsval) list"

text \<open>
  The exceptions the \<open>try\<close> blocks below catch.
\<close>

datatype exn = SyntaxError | TypeError | ProviderError

section \<open>Defensive JSON parsing\<close>

fun gsub :: "(string \<Rightarrow> (nat \<times> string) option) \<Rightarrow> nat \<Rightarrow> string \<Rightarrow> string" where
  \<comment> \<open>\<open>replace(re, ...)\<close> with the \<open>g\<close> flag, for a regular expression given by its match at
      the head of a string: the length of the match (1 or more) and what replaces it. The
      scan goes from the left and resumes after each match; \<open>k\<close> counts the characters
      of a match still to skip.\<close>
  "gsub m k [] = []"
| "gsub m (Suc k) (c # cs) = gsub m k cs"
| "gsub m 0 (c # cs) =
     (case m (c # cs) of
        None \<Rightarrow> c # gsub m 0 cs
      | Some (len, rep) \<Rightarrow> rep @ gsub m (len - 1) cs)"

definition replaceAll :: "(string \<Rightarrow> (nat \<times> string) option) \<Rightarrow> string \<Rightarrow> string" where
  "replaceAll m s = gsub m 0 s"

definition fenceHere :: "string \<Rightarrow> (nat \<times> string) option" where
  \<comment> \<open>\<open>/```(?:json)?\s*/gi\<close>, replaced by the empty string.\<close>
  "fenceHere xs =
     (if prefix (replicate 3 (CHR 0x60)) xs
      then (let r = drop 3 xs;
                j = (if matchesCI ''json'' r then 4 else 0);
                w = length (takeWhile isSpace (drop j r))
            in Some (3 + j + w, []))
      else None)"

definition cleanText :: "string \<Rightarrow> string" where
  \<comment> \<open>The fences removed, line feeds and tabs turned into spaces, carriage returns
      removed, the result trimmed.\<close>
  "cleanText text =
     trim (map (\<lambda>c. if c = CHR 0x09 then CHR '' '' else c)
            (filter (\<lambda>c. c \<noteq> CHR 0x0D)
              (map (\<lambda>c. if c = CHR 0x0A then CHR '' '' else c)
                (replaceAll fenceHere text))))"

definition isLineTerminator :: "char \<Rightarrow> bool" where
  \<comment> \<open>What \<open>.\<close> does not match.\<close>
  "isLineTerminator c = (c = CHR 0x0A \<or> c = CHR 0x0D)"

definition spanHere :: "char \<Rightarrow> char \<Rightarrow> string \<Rightarrow> string option" where
  \<comment> \<open>\<open>/\{.*\}/\<close> (or \<open>/\[.*\]/\<close>) at the head of \<open>xs\<close>: the opening character, then the
      longest run without line terminator that ends in the closing character.\<close>
  "spanHere opening closing xs =
     (case xs of
        [] \<Rightarrow> None
      | c # cs \<Rightarrow>
          if c \<noteq> opening then None
          else (let run = takeWhile (\<lambda>x. \<not> isLineTerminator x) cs;
                    body = rev (dropWhile (\<lambda>x. x \<noteq> closing) (rev run))
                in if body = [] then None else Some (c # body)))"

fun matchSpan :: "char \<Rightarrow> char \<Rightarrow> string \<Rightarrow> string option" where
  \<comment> \<open>The leftmost match.\<close>
  "matchSpan opening closing [] = None"
| "matchSpan opening closing (c # cs) =
     (case spanHere opening closing (c # cs) of
        Some m \<Rightarrow> Some m
      | None \<Rightarrow> matchSpan opening closing cs)"

definition locateJson :: "string \<Rightarrow> string option" where
  \<comment> \<open>\<open>cleaned.match(/\{.*\}/) || cleaned.match(/\[.*\]/)\<close>, its element 0.\<close>
  "locateJson cleaned =
     (case matchSpan (CHR ''{'') (CHR ''}'') cleaned of
        Some m \<Rightarrow> Some m
      | None \<Rightarrow> matchSpan (CHR ''['') (CHR '']'') cleaned)"

definition isIdentStart :: "char \<Rightarrow> bool" where
  "isIdentStart c = (c \<in> set lowerAscii \<or> c \<in> set upperAscii \<or> c = CHR ''_'')"

definition isIdentChar :: "char \<Rightarrow> bool" where
  "isIdentChar c = (isIdentStart c \<or> isDigit c)"

definition dquote :: char where
  "dquote = CHR 0x22"

definition squote :: char where
  "squote = CHR 0x27"

definition keyHere :: "string \<Rightarrow> (nat \<times> string) option" where
  \<comment> \<open>\<open>/([{,]\s*)([a-zA-Z_][a-zA-Z0-9_]*)\s*:/g\<close>, replaced by \<open>$1"$2":\<close>.\<close>
  "keyHere xs =
     (case xs of
        [] \<Rightarrow> None
      | c # cs \<Rightarrow>
          if c \<noteq> CHR ''{'' \<and> c \<noteq> CHR '','' then None
          else (let ws = takeWhile isSpace cs;
                    r = dropWhile isSpace cs;
                    ident = takeWhile isIdentChar r;
                    r2 = dropWhile isIdentChar r;
                    ws2 = takeWhile isSpace r2;
                    r3 = dropWhile isSpace r2
                in if r \<noteq> [] \<and> isIdentStart (hd r) \<and> r3 \<noteq> [] \<and> hd r3 = CHR '':''
                   then Some (1 + length ws + length ident + length ws2 + 1,
                              c # ws @ [dquote] @ ident @ [dquote] @ '':'')
                   else None))"

definition quotedHere :: "string \<Rightarrow> (nat \<times> string) option" where
  \<comment> \<open>\<open>/:\s*'([^']*)'/g\<close>, replaced by \<open>:"$1"\<close>.\<close>
  "quotedHere xs =
     (case xs of
        [] \<Rightarrow> None
      | c # cs \<Rightarrow>
          if c \<noteq> CHR '':'' then None
          else (let ws = takeWhile isSpace cs;
                    r = dropWhile isSpace cs;
                    body = takeWhile (\<lambda>x. x \<noteq> squote) (tl r);
                    r2 = dropWhile (\<lambda>x. x \<noteq> squote) (tl r)
                in if r \<noteq> [] \<and> hd r = squote \<and> r2 \<noteq> []
                   then Some (1 + length ws + 1 + length body + 1,
                              '':'' @ [dquote] @ body @ [dquote])
                   else None))"

definition commaHere :: "string \<Rightarrow> (nat \<times> string) option" where
  \<comment> \<open>\<open>/,\s*([}\]])/g\<close>, replaced by \<open>$1\<close>.\<close>
  "commaHere xs =
     (case xs of
        [] \<Rightarrow> None
      | c # cs \<Rightarrow>
          if c \<noteq> CHR '','' then None
          else (let ws = takeWhile isSpace cs;
                    r = dropWhile isSpace cs
                in if r \<noteq> [] \<and> (hd r = CHR ''}'' \<or> hd r = CHR '']'')
                   then Some (1 + length ws + 1, [hd r])
                   else None))"

definition undefinedHere :: "string \<Rightarrow> (nat \<times> string) option" where
  \<comment> \<open>\<open>/:\s*undefined/g\<close>, replaced by \<open>:null\<close>.\<close>
  "undefinedHere xs =
     (case xs of
        [] \<Rightarrow> None
      | c # cs \<Rightarrow>
          if c \<noteq> CHR '':'' then None
          else (let ws = takeWhile isSpace cs;
                    r = dropWhile isSpace cs
                in if prefix ''undefined'' r
                   then Some (1 + length ws + 9, '':null'')
                   else None))"

definition repairJson :: "string \<Rightarrow> string" where
  "repairJson jsonStr =
     replaceAll undefinedHere (replaceAll commaHere (replaceAll quotedHere (replaceAll keyHere jsonStr)))"

definition strs :: "string list \<Rightarrow> jsval" where
  "strs xs = JArr (map JStr xs)"

definition refinementDefaults :: "string list \<Rightarrow> string list \<Rightarrow> jsval" where
  \<comment> \<open>The default structure of the two fallbacks; they differ in \<open>missingInfo\<close> and
      \<open>suggestions\<close>.\<close>
  "refinementDefaults missing suggested =
     JObj [(''refinements'',
            JObj [(''jobTitles'', JArr []), (''synonyms'', JArr []),
                  (''location'', JObj [(''remote'', JBool True)]),
                  (''seniority'', JStr ''mid''),
                  (''mustHaveSkills'', JArr []), (''niceToHaveSkills'', JArr []),
                  (''salary'', JObj []), (''contractType'', JStr ''full-time''),
                  (''eligibility'', JObj [(''languages'', strs [''English''])]),
                  (''dateRange'', JNum 3), (''exclusions'', JObj []),
                  (''targetCompanies'', JArr [])]),
           (''missingInfo'', strs missing),
           (''suggestions'', strs suggested)]"

definition defaultsNoJson :: jsval where
  "defaultsNoJson =
     refinementDefaults [''Job title or role'', ''Location preference'']
                        [''Add specific job title'', ''Specify location'']"

definition defaultsParseFailed :: jsval where
  "defaultsParseFailed =
     refinementDefaults [''Job title'', ''Location'', ''Experience level'']
                        [''Specify the role you want'', ''Add your preferred location'']"

definition safeJsonParse_try :: "(string \<Rightarrow> jsval option) \<Rightarrow> string \<Rightarrow> exn + jsval" where
  \<comment> \<open>The \<open>try\<close> block. \<open>parse\<close> is \<open>JSON.parse\<close>: \<open>None\<close> when it throws.\<close>
  "safeJsonParse_try parse text =
     (let cleaned = cleanText text
      in case locateJson cleaned of
           None \<Rightarrow> if includes_str text ''refinements'' then Inr defaultsNoJson else Inr JNull
         | Some jsonStr \<Rightarrow>
             (case parse (repairJson jsonStr) of
                None \<Rightarrow> Inl SyntaxError
              | Some v \<Rightarrow> Inr v))"

definition safeJsonParse :: "(string \<Rightarrow> jsval option) \<Rightarrow> string \<Rightarrow> exn + jsval" where
  \<comment> \<open>\<open>JNull\<close> is \<open>null\<close>; the \<open>catch\<close> block turns every exception into a value.\<close>
  "safeJsonParse parse text =
     (if text = [] then Inr JNull
      else case safeJsonParse_try parse text of
             Inr v \<Rightarrow> Inr v
           | Inl e \<Rightarrow>
               if includes_str text ''refinements'' \<or> includes_str text ''missingInfo''
               then Inr defaultsParseFailed
               else Inr JNull)"

definition repairAndParse :: "(string \<Rightarrow> jsval option) \<Rightarrow> string \<Rightarrow> jsval option" where
  \<comment> \<open>The pipeline of the specification: strip the fences and collapse white space,
      locate the first span, repair it, decode it. \<open>None\<close> when a step fails.\<close>
  "repairAndParse parse text =
     (case locateJson (cleanText text) of
        None \<Rightarrow> None
      | Some jsonStr \<Rightarrow> parse (repairJson jsonStr))"

definition rejectAll :: "string \<Rightarrow> jsval option" where
  \<comment> \<open>\<open>JSON.parse\<close> on texts that are not JSON: it throws.\<close>
  "rejectAll s = None"

section \<open>Structuring a scraped record\<close>












definition jsTruthy :: "jsval \<Rightarrow> bool" where
  \<comment> \<open>Truthiness of a value.\<close>
  "jsTruthy v =
     (case v of
        JUndefined \<Rightarrow> False | JNull \<Rightarrow> False | JBool b \<Rightarrow> b | JNum n \<Rightarrow> n \<noteq> 0
      | JStr s \<Rightarrow> s \<noteq> [] | JArr xs \<Rightarrow> True | JObj fs \<Rightarrow> True)"

definition propOf :: "jsval \<Rightarrow> string \<Rightarrow> jsval" where
  \<comment> \<open>\<open>v.k\<close> for a value that is neither \<open>null\<close> nor \<open>undefined\<close>, and a key that no
      prototype defines.\<close>
  "propOf v k =
     (case v of
        JObj fs \<Rightarrow> (case map_of fs k of None \<Rightarrow> JUndefined | Some x \<Rightarrow> x)
      | _ \<Rightarrow> JUndefined)"

















section \<open>Page fetcher\<close>

text \<open>
  The page fetcher of the backend (\<open>extractJobData\<close>).
\<close>

datatype site = Indeed | LinkedIn | Glassdoor | AngelList | Greenhouse | Lever | Workday

definition siteOf :: "string \<Rightarrow> site option" where
  \<comment> \<open>The job boards \<open>extractJobData\<close> recognises, in the order it tests for them.\<close>
  "siteOf url =
     (if includes_str url ''indeed.com'' then Some Indeed
      else if includes_str url ''linkedin.com'' then Some LinkedIn
      else if includes_str url ''glassdoor.com'' then Some Glassdoor
      else if includes_str url ''angel.co'' \<or> includes_str url ''wellfound.com'' then Some AngelList
      else if includes_str url ''greenhouse.io'' then Some Greenhouse
      else if includes_str url ''lever.co'' then Some Lever
      else if includes_str url ''workday.com'' then Some Workday
      else None)"

text \<open>
  A scraped record. The fields that JSON-LD data may fill hold values of type \<open>any\<close>.
\<close>

record JobData =
  jd_url :: string
  jd_title :: jsval
  jd_company :: jsval
  jd_location :: jsval
  jd_salary :: jsval
  jd_description :: jsval
  jd_employmentType :: jsval

datatype ScrapeResponse = Single JobData | JobList "JobData list"

text \<open>
  A fetched page, as \<open>extractJobData\<close> reads it: for each field, the text of the first
  element of each generic selector, in the order of the selectors; the content of the
  first JSON-LD script, if there is one; the links \<open>findJobLinks\<close> finds; the response of
  each site-specific scraper.
\<close>

record Page =
  titleTexts :: "string list"
  companyTexts :: "string list"
  locationTexts :: "string list"
  salaryTexts :: "string list"
  descriptionTexts :: "string list"
  employmentTexts :: "string list"
  jsonLd :: "string option"
  jobLinks :: "JobData list"
  siteScrape :: "site \<Rightarrow> ScrapeResponse"

fun extractText :: "string list \<Rightarrow> string" where
  \<comment> \<open>\<open>extractText\<close>, given the text of the first element of each selector.\<close>
  "extractText [] = []"
| "extractText (raw # rest) =
     (let text = trim raw in if text \<noteq> [] \<and> length text > 3 then text else extractText rest)"

definition heuristicJob :: "Page \<Rightarrow> string \<Rightarrow> JobData" where
  \<comment> \<open>The record built from the generic selectors.\<close>
  "heuristicJob page url =
     \<lparr> jd_url = url,
       jd_title = JStr (extractText (titleTexts page)),
       jd_company = JStr (extractText (companyTexts page)),
       jd_location = JStr (extractText (locationTexts page)),
       jd_salary = JStr (extractText (salaryTexts page)),
       jd_description = JStr (take 5000 (extractText (descriptionTexts page))),
       jd_employmentType = JStr (extractText (employmentTexts page)) \<rparr>"

definition orElse :: "jsval \<Rightarrow> jsval \<Rightarrow> jsval" where
  \<comment> \<open>\<open>a || b\<close>\<close>
  "orElse a b = (if jsTruthy a then a else b)"

definition optProp :: "jsval \<Rightarrow> string \<Rightarrow> jsval" where
  \<comment> \<open>\<open>v?.k\<close>\<close>
  "optProp v k = (case v of JUndefined \<Rightarrow> JUndefined | JNull \<Rightarrow> JUndefined | _ \<Rightarrow> propOf v k)"

definition mergeJsonLd_try :: "(string \<Rightarrow> jsval option) \<Rightarrow> JobData \<Rightarrow> string \<Rightarrow> exn + JobData" where
  \<comment> \<open>The \<open>try\<close> block over the JSON-LD text: \<open>JSON.parse\<close> may throw, and so does
      reading \<open>@type\<close> of \<open>null\<close>.\<close>
  "mergeJsonLd_try parse job ld =
     (case parse ld of
        None \<Rightarrow> Inl SyntaxError
      | Some data \<Rightarrow>
          if data = JNull \<or> data = JUndefined then Inl TypeError
          else if propOf data ''@type'' = JStr ''JobPosting''
          then Inr (job\<lparr> jd_title := orElse (jd_title job) (propOf data ''title''),
                         jd_company := orElse (jd_company job)
                            (optProp (propOf data ''hiringOrganization'') ''name''),
                         jd_location := orElse (jd_location job)
                            (optProp (optProp (propOf data ''jobLocation'') ''address'')
                                     ''addressLocality''),
                         jd_salary := orElse (jd_salary job)
                            (optProp (optProp (propOf data ''baseSalary'') ''value'') ''value''),
                         jd_description := orElse (jd_description job)
                            (propOf data ''description'') \<rparr>)
          else Inr job)"

definition mergeJsonLd :: "(string \<Rightarrow> jsval option) \<Rightarrow> JobData \<Rightarrow> string option \<Rightarrow> JobData" where
  \<comment> \<open>\<open>if (jsonLd) { try { ... } catch (e) { } }\<close>\<close>
  "mergeJsonLd parse job ld =
     (case ld of
        None \<Rightarrow> job
      | Some html \<Rightarrow>
          if html = [] then job
          else (case mergeJsonLd_try parse job html of Inr merged \<Rightarrow> merged | Inl e \<Rightarrow> job))"

definition extractJobData :: "(string \<Rightarrow> jsval option) \<Rightarrow> Page \<Rightarrow> string \<Rightarrow> ScrapeResponse" where
  \<comment> \<open>\<open>parse\<close> is \<open>JSON.parse\<close>.\<close>
  "extractJobData parse page url =
     (case siteOf url of
        Some s \<Rightarrow> siteScrape page s
      | None \<Rightarrow>
          (let job = mergeJsonLd parse (heuristicJob page url) (jsonLd page);
               links = jobLinks page
           in if length links > 1 \<and> (\<not> jsTruthy (jd_title job) \<or> \<not> jsTruthy (jd_company job))
              then JobList links
              else Single job))"

definition jobPosting :: "(string \<Rightarrow> jsval option) \<Rightarrow> Page \<Rightarrow> jsval option" where
  \<comment> \<open>The \<open>JobPosting\<close> structured data of a page, if it has any.\<close>
  "jobPosting parse page =
     (case jsonLd page of
        None \<Rightarrow> None
      | Some ld \<Rightarrow>
          if ld = [] then None
          else (case parse ld of
                  None \<Rightarrow> None
                | Some data \<Rightarrow>
                    if data \<noteq> JNull \<and> data \<noteq> JUndefined \<and> propOf data ''@type'' = JStr ''JobPosting''
                    then Some data else None))"

fun ldPath :: "jsval \<Rightarrow> string list \<Rightarrow> jsval" where
  \<comment> \<open>\<open>data.a?.b?.c\<close>\<close>
  "ldPath v [] = v"
| "ldPath v (k # ks) = ldPath (optProp v k) ks"

definition domFirst :: "string \<Rightarrow> jsval option \<Rightarrow> string list \<Rightarrow> jsval" where
  \<comment> \<open>The value of a field as the code merges it: the heuristic DOM text when there
      is one, the JSON-LD value at \<open>path\<close> otherwise.\<close>
  "domFirst found posting path =
     (if found \<noteq> [] then JStr found
      else case posting of None \<Rightarrow> JStr [] | Some data \<Rightarrow> ldPath data path)"

definition quoted :: "string \<Rightarrow> string" where
  \<comment> \<open>A string in double quotes.\<close>
  "quoted s = dquote # s @ [dquote]"

definition ldText :: string where
  "ldText = ''{'' @ quoted ''@type'' @ '':'' @ quoted ''JobPosting'' @ '',''
              @ quoted ''title'' @ '':'' @ quoted ''Staff Engineer'' @ '',''
              @ quoted ''baseSalary'' @ '':{'' @ quoted ''value'' @ '':{''
              @ quoted ''value'' @ '':85000}}}''"

definition ldData :: jsval where
  "ldData = JObj [(''@type'', JStr ''JobPosting''), (''title'', JStr ''Staff Engineer''),
                  (''baseSalary'', JObj [(''value'', JObj [(''value'', JNum 85000)])])]"

definition ldParse :: "string \<Rightarrow> jsval option" where
  \<comment> \<open>\<open>JSON.parse\<close> on the JSON-LD text of the example page and on texts that are not
      JSON.\<close>
  "ldParse s = (if s = ldText then Some ldData else None)"

text \<open>
  A page of an unrecognised site with a title in the DOM and in its JSON-LD data.
\<close>

definition careersPage :: Page where
  "careersPage =
     \<lparr> titleTexts = [''Senior Engineer'', [], [], [], [], [], []],
       companyTexts = [[], [], ''  Acme Co  '', [], [], []],
       locationTexts = [[], [], [], [], []],
       salaryTexts = [[], [], [], [], [], []],
       descriptionTexts = [[], ''We build things with Python.'', [], [], [], [], [], []],
       employmentTexts = [[], [], [], [], []],
       jsonLd = Some ldText,
       jobLinks = [],
       siteScrape = (\<lambda>s. JobList []) \<rparr>"

definition careersUrl :: string where
  "careersUrl = ''https://careers.example.org/jobs/42''"

section \<open>Properties of the string functions\<close>

lemma includes_sublist: "includes_str s t = sublist t s"
  by (induction s) (auto simp: sublist_Cons_right)

section \<open>Properties of the quality filter\<close>

lemma emptyList_iff: "emptyList xs = (\<not> (\<exists>l. xs = Some l \<and> l \<noteq> []))"
  by (cases xs) (auto simp: emptyList_def)

lemma qualityJob_iff_spec: "qualityJob job = qualitySpec job"
  unfolding qualityJob_def qualitySpec_def emptyList_iff includes_sublist
  by (auto simp: not_less)

text \<open>
  C7. \<open>filterQualityJobs\<close> keeps a job exactly when the title is present, at least 5
  characters long and not \<open>Job Opening\<close>; the company is present, at least 2 characters
  long and not \<open>Company\<close>; the description is present, at least 100 characters long and
  does not contain \<open>Please visit the job page\<close>; and the requirements or the
  responsibilities are a non-empty list. The survivors keep their order.
\<close>

theorem filterQualityJobs_retains_exactly:
  "filterQualityJobs jobs = filter qualitySpec jobs
   \<and> set (filterQualityJobs jobs) = {job. job \<in> set jobs \<and> qualitySpec job}"
proof -
  have "qualityJob = qualitySpec"
    by (rule ext) (rule qualityJob_iff_spec)
  then show ?thesis
    by (auto simp: filterQualityJobs_def)
qed

section \<open>Properties of the match score\<close>

lemma fold_skill_bonus:
  "fold (\<lambda>skill score. if P skill then score + 2 else score) skills (s0::int)
     = s0 + 2 * int (length (filter P skills))"
  by (induction skills arbitrary: s0) auto

lemma location_step:
  "(case city (locationPref r) of
      Some c \<Rightarrow> if c \<noteq> [] \<and> includes_str (location job) c then f else g
    | None \<Rightarrow> g) = (if locationFires job r then f else g)"
  by (auto simp: locationFires_def includes_sublist split: option.splits)

lemma salary_step:
  "(case (salary job, min_salary (salaryPref r)) of
      (Some s, Some m) \<Rightarrow>
        if s \<noteq> [] \<and> m \<noteq> 0
        then (case parseInt (digitsOnly s) of
                Some jobSalary \<Rightarrow> if m \<le> of_nat jobSalary then f else g
              | None \<Rightarrow> g)
        else g
    | _ \<Rightarrow> g) = (if salaryFires job r then f else g)"
  by (auto simp: salaryFires_def split: option.splits)

lemma calculateMatchScore_shape:
  "calculateMatchScore job r =
     min 95 (70 + (if locationFires job r then 10 else 0) + (if remoteFires job r then 10 else 0)
                + (if salaryFires job r then 5 else 0) + 2 * int (length (skillHits job r)))"
  unfolding calculateMatchScore_def Let_def location_step salary_step fold_skill_bonus
  by (simp add: remoteFires_def skillHits_def includes_sublist min.commute)

lemma length_filter_mono:
  "(\<And>x. P x \<Longrightarrow> Q x) \<Longrightarrow> length (filter P xs) \<le> length (filter Q xs)"
  by (induction xs) auto

lemma skillHits_append:
  "length (skillHits job r)
     \<le> length (skillHits (job\<lparr>description := description job @ extra\<rparr>) r)"
proof -
  have "sublist s (toLowerCase (title job @ '' '' @ description job))
        \<Longrightarrow> sublist s (toLowerCase (title job @ '' '' @ description job @ extra))" for s
    by (metis sublist_append toLowerCase_def map_append append_assoc)
  then show ?thesis
    unfolding skillHits_def by (simp add: length_filter_mono)
qed

text \<open>
  C6. The score is 70 plus the bonuses, 2 for each must-have skill whose lowercase form
  occurs in the lowercased title-plus-description, capped at 95. Text added at the end of
  the description (which is how one more skill comes to appear there, all else equal)
  never lowers the score, and the score never exceeds 95.
\<close>

theorem calculateMatchScore_shape_monotone_capped:
  "calculateMatchScore job r =
     min 95 (70 + (if locationFires job r then 10 else 0) + (if remoteFires job r then 10 else 0)
                + (if salaryFires job r then 5 else 0) + 2 * int (length (skillHits job r)))
   \<and> calculateMatchScore job r
       \<le> calculateMatchScore (job\<lparr>description := description job @ extra\<rparr>) r
   \<and> calculateMatchScore job r \<le> 95"
proof -
  let ?job' = "job\<lparr>description := description job @ extra\<rparr>"
  have same: "locationFires ?job' r = locationFires job r"
    "remoteFires ?job' r = remoteFires job r"
    "salaryFires ?job' r = salaryFires job r"
    by (simp_all add: locationFires_def remoteFires_def salaryFires_def)
  have "calculateMatchScore job r \<le> calculateMatchScore ?job' r"
    unfolding calculateMatchScore_shape same
    using skillHits_append [of job r extra] by (intro min.mono) auto
  moreover have "calculateMatchScore job r \<le> 95"
    unfolding calculateMatchScore_shape by simp
  ultimately show ?thesis
    using calculateMatchScore_shape [of job r] by simp
qed

section \<open>Properties of the match reasons\<close>

lemma generateMatchReasons_shape:
  "generateMatchReasons job r =
     take 3 ((if locationFires job r then [''Location match''] else [])
             @ (if remoteFires job r then [''Remote opportunity''] else [])
             @ (if truthy (salary job) then [''Competitive salary''] else [])
             @ (if skillHits job r \<noteq> [] then [skillNote (length (skillHits job r))] else []))"
  unfolding generateMatchReasons_def Let_def location_step
  by (simp add: remoteFires_def skillHits_def includes_sublist skillNote_def)

text \<open>
  C9, as the claim states it, fails: the salary note is given for a listing whose salary
  text holds no number, so that the salary bonus did not fire.
\<close>

theorem generateMatchReasons_salary_note_without_bonus:
  "''Competitive salary'' \<in> set (generateMatchReasons exampleJob exampleRefinements)
   \<and> \<not> salaryFires exampleJob exampleRefinements"
  by (simp add: generateMatchReasons_shape locationFires_def remoteFires_def salaryFires_def
      truthy_def exampleJob_def exampleRefinements_def digitsOnly_def isDigit_def parseInt_def)

text \<open>
  C9, amended. \<open>generateMatchReasons\<close> returns at most 3 strings: the first three of the
  location note, the remote note, the salary note and the skill-count note, in this order,
  each present under its condition. The location and the remote note are there exactly
  when their bonus fired in the score. The salary note is there exactly when the listing
  has a non-empty salary text, whether or not the salary bonus fired.
\<close>

theorem generateMatchReasons_at_most_three_in_order:
  "generateMatchReasons job r =
     take 3 ((if locationFires job r then [''Location match''] else [])
             @ (if remoteFires job r then [''Remote opportunity''] else [])
             @ (if truthy (salary job) then [''Competitive salary''] else [])
             @ (if skillHits job r \<noteq> [] then [skillNote (length (skillHits job r))] else []))
   \<and> length (generateMatchReasons job r) \<le> 3
   \<and> (''Location match'' \<in> set (generateMatchReasons job r)) = locationFires job r
   \<and> (''Remote opportunity'' \<in> set (generateMatchReasons job r)) = remoteFires job r
   \<and> (''Competitive salary'' \<in> set (generateMatchReasons job r)) = truthy (salary job)"
  unfolding generateMatchReasons_shape
  by (cases "locationFires job r"; cases "remoteFires job r"; cases "truthy (salary job)";
      cases "skillHits job r = []") (simp_all add: skillNote_def)

section \<open>Properties of the freshness classifier\<close>

lemma asciiLower_id: "c \<notin> set upperAscii \<Longrightarrow> asciiLower c = c"
proof -
  assume "c \<notin> set upperAscii"
  moreover have "length upperAscii = length lowerAscii"
    by (simp add: upperAscii_def lowerAscii_def)
  ultimately have "map_of (zip upperAscii lowerAscii) c = None"
    by (simp add: map_of_zip_is_None)
  then show ?thesis by (simp add: asciiLower_def)
qed

lemma digits_not_upper: "\<forall>c \<in> set ''0123456789''. c \<notin> set upperAscii"
  by (simp add: upperAscii_def)

lemma spaces_not_upper:
  "\<forall>c \<in> set [CHR 0x09, CHR 0x0A, CHR 0x0B, CHR 0x0C, CHR 0x0D, CHR 0x20, CHR 0xA0].
     c \<notin> set upperAscii"
  by (simp add: upperAscii_def)

lemma isDigit_lower: "isDigit c \<Longrightarrow> asciiLower c = c"
  using digits_not_upper asciiLower_id unfolding isDigit_def by blast

lemma isSpace_lower: "isSpace c \<Longrightarrow> asciiLower c = c"
  using spaces_not_upper asciiLower_id unfolding isSpace_def by blast

lemma spaces_not_digits:
  "\<forall>c \<in> set [CHR 0x09, CHR 0x0A, CHR 0x0B, CHR 0x0C, CHR 0x0D, CHR 0x20, CHR 0xA0].
     c \<notin> set ''0123456789''"
  by simp

lemma isSpace_not_digit: "isSpace c \<Longrightarrow> \<not> isDigit c"
  using spaces_not_digits unfolding isSpace_def isDigit_def by blast

lemma matchesCI_letters: "matchesCI pat xs \<Longrightarrow> set pat \<subseteq> asciiLower ` set xs"
proof -
  assume "matchesCI pat xs"
  then have "set pat = asciiLower ` set (take (length pat) xs)"
    unfolding matchesCI_def by (metis set_map)
  then show ?thesis
    using set_take_subset [of "length pat" xs] by auto
qed

lemma testCI_letters: "testCI pat xs \<Longrightarrow> set pat \<subseteq> asciiLower ` set xs"
proof (induction xs)
  case Nil
  then show ?case using matchesCI_letters [of pat "[]"] by simp
next
  case (Cons c cs)
  then show ?case using matchesCI_letters [of pat "c # cs"] by auto
qed

lemma some1_suffix: "some1 P xs = Some r \<Longrightarrow> set r \<subseteq> set xs"
  by (auto simp: some1_def split: list.splits if_splits dest: set_dropWhileD)

lemma unitAgoHere_letters: "unitAgoHere unit xs \<Longrightarrow> set unit \<subseteq> asciiLower ` set xs"
  by (simp add: unitAgoHere_def matchesCI_letters)

lemma agoHere_letters:
  assumes "agoHere unit xs = Some g"
  shows "set unit \<subseteq> asciiLower ` set xs"
proof -
  from assms obtain r where r: "some1 isSpace (dropWhile isDigit xs) = Some r" "unitAgoHere unit r"
    by (auto simp: agoHere_def Let_def split: if_splits option.splits)
  have "set r \<subseteq> set xs"
    using some1_suffix [OF r(1)] set_dropWhileD [of _ isDigit xs] by blast
  then show ?thesis
    using unitAgoHere_letters [OF r(2)] by blast
qed

lemma matchAgo_letters: "matchAgo unit xs = Some g \<Longrightarrow> set unit \<subseteq> asciiLower ` set xs"
proof (induction xs)
  case Nil
  then show ?case by simp
next
  case (Cons c cs)
  show ?case
  proof (cases "agoHere unit (c # cs)")
    case None
    with Cons show ?thesis by auto
  next
    case (Some a)
    then show ?thesis using agoHere_letters [of unit "c # cs" a] by simp
  qed
qed

lemma matchAgo_None: "\<not> set unit \<subseteq> asciiLower ` set xs \<Longrightarrow> matchAgo unit xs = None"
  using matchAgo_letters [of unit xs] by (cases "matchAgo unit xs") auto


text \<open>
  Group 1 of a match is a non-empty run of digits, and \<open>parseInt\<close> of it is its value:
  \<open>extractJobDate\<close> never computes with \<open>NaN\<close>.
\<close>

lemma agoHere_digits:
  assumes "agoHere unit xs = Some g"
  shows "g \<noteq> [] \<and> list_all isDigit g \<and> parseInt g = Some (digitsValue g)"
proof -
  from assms have g: "g = takeWhile isDigit xs" "g \<noteq> []"
    by (auto simp: agoHere_def Let_def split: if_splits option.splits)
  then have all: "list_all isDigit g"
    by (auto simp: list_all_iff dest: set_takeWhileD)
  then have tw: "takeWhile isDigit g = g"
    by (simp add: list_all_iff)
  have "parseInt g = Some (digitsValue g)"
    unfolding parseInt_def Let_def tw using g(2) by simp
  then show ?thesis
    using g(2) all by simp
qed

lemma matchAgo_digits:
  "matchAgo unit xs = Some g
   \<Longrightarrow> g \<noteq> [] \<and> list_all isDigit g \<and> parseInt g = Some (digitsValue g)"
proof (induction xs)
  case Nil
  then show ?case by simp
next
  case (Cons c cs)
  show ?case
  proof (cases "agoHere unit (c # cs)")
    case None
    with Cons show ?thesis by simp
  next
    case (Some a)
    with Cons.prems have "a = g" by simp
    with Some show ?thesis using agoHere_digits [of unit "c # cs" g] by simp
  qed
qed

lemma some1_spaces:
  assumes "spaces ws" "r \<noteq> []" "\<not> isSpace (hd r)"
  shows "some1 isSpace (ws @ r) = Some r"
proof -
  from assms obtain c cs where ws: "ws = c # cs" "isSpace c" "list_all isSpace cs"
    by (cases ws) (auto simp: spaces_def)
  have "dropWhile isSpace (cs @ r) = r"
    using ws(3) assms(2,3) by (cases r) (auto simp: list_all_iff dropWhile_append3)
  then show ?thesis
    by (simp add: some1_def ws)
qed

lemma unitAgoHere_phrase:
  assumes u: "spelt unit u \<or> spelt (unit @ ''s'') u"
    and ws: "spaces ws2" and a: "spelt ''ago'' a"
  shows "unitAgoHere unit (u @ ws2 @ a @ post)"
proof -
  from a obtain a1 a2 a3 where a': "a = [a1, a2, a3]" "asciiLower a1 = CHR ''a''"
    by (auto simp: spelt_def map_eq_Cons_conv)
  have "\<not> isSpace a1"
    using a'(2) isSpace_lower [of a1] spaces_not_upper by (auto simp: isSpace_def)
  then have a_ns: "\<not> isSpace (hd (a @ post))" "a @ post \<noteq> []"
    by (simp_all add: a')
  have ago: "matchesCI ''ago'' (a @ post)"
    using a by (simp add: matchesCI_def a' spelt_def)
  from ws obtain w ws' where w: "ws2 = w # ws'" "isSpace w"
    by (cases ws2) (auto simp: spaces_def)
  have w_s: "asciiLower w \<noteq> CHR ''s''"
    using isSpace_lower [OF w(2)] w(2) by (auto simp: isSpace_def)
  from u show ?thesis
  proof
    assume eq: "spelt unit u"
    then have len: "length u = length unit" unfolding spelt_def by (metis length_map)
    show ?thesis
      unfolding unitAgoHere_def Let_def
      using eq some1_spaces [OF ws a_ns(2) a_ns(1)] ago w_s
      by (simp add: matchesCI_def len w(1) spelt_def)
  next
    assume "spelt (unit @ ''s'') u"
    then obtain u' s where us: "u = u' @ [s]" "map asciiLower u' = unit" "asciiLower s = CHR ''s''"
      by (auto simp: spelt_def map_eq_append_conv map_eq_Cons_conv)
    then have len: "length u' = length unit" by (metis length_map)
    show ?thesis
      unfolding unitAgoHere_def Let_def
      using us some1_spaces [OF ws a_ns(2) a_ns(1)] ago
      by (simp add: matchesCI_def len)
  qed
qed

lemma agoHere_phrase:
  assumes ds: "digits ds" and ws1: "spaces ws1"
    and u: "spelt unit u \<or> spelt (unit @ ''s'') u"
    and unit: "unit \<noteq> []" "\<not> isSpace (hd unit)"
    and ws2: "spaces ws2" and a: "spelt ''ago'' a"
  shows "agoHere unit (ds @ ws1 @ u @ ws2 @ a @ post) = Some ds"
proof -
  let ?rest = "u @ ws2 @ a @ post"
  from u unit(1) have u_ne: "u \<noteq> []" by (auto simp: spelt_def)
  from u unit have hd_u: "asciiLower (hd u) = hd unit"
    by (cases u; cases unit) (auto simp: spelt_def)
  have u_ns: "\<not> isSpace (hd u)"
    using isSpace_lower [of "hd u"] hd_u unit(2) by auto
  have rest: "?rest \<noteq> []" "\<not> isSpace (hd ?rest)"
    using u_ne u_ns by auto
  from ws1 obtain w ws' where w: "ws1 = w # ws'" "isSpace w"
    by (cases ws1) (auto simp: spaces_def)
  have tk: "takeWhile isDigit (ds @ ws1 @ ?rest) = ds"
    using ds w isSpace_not_digit [OF w(2)] by (simp add: digits_def list_all_iff w(1))
  have dr: "dropWhile isDigit (ds @ ws1 @ ?rest) = ws1 @ ?rest"
    using ds w isSpace_not_digit [OF w(2)] by (simp add: digits_def list_all_iff w(1))
  show ?thesis
    unfolding agoHere_def Let_def tk dr
    using ds some1_spaces [OF ws1 rest] unitAgoHere_phrase [OF u ws2 a]
    by (simp add: digits_def)
qed

lemma agoHere_no_digit: "xs = [] \<or> \<not> isDigit (hd xs) \<Longrightarrow> agoHere unit xs = None"
  by (cases xs) (auto simp: agoHere_def)

lemma matchAgo_skip:
  "list_all (\<lambda>c. \<not> isDigit c) pre \<Longrightarrow> matchAgo unit (pre @ xs) = matchAgo unit xs"
  by (induction pre) (simp_all add: agoHere_no_digit)

lemma matchAgo_phrase:
  assumes pre: "list_all (\<lambda>c. \<not> isDigit c) pre"
    and ds: "digits ds" and ws1: "spaces ws1"
    and u: "spelt unit u \<or> spelt (unit @ ''s'') u"
    and unit: "unit \<noteq> []" "\<not> isSpace (hd unit)"
    and ws2: "spaces ws2" and a: "spelt ''ago'' a"
  shows "matchAgo unit (pre @ ds @ ws1 @ u @ ws2 @ a @ post) = Some ds"
proof -
  from ds obtain d ds' where d: "ds = d # ds'"
    by (cases ds) (auto simp: digits_def)
  have "matchAgo unit (ds @ ws1 @ u @ ws2 @ a @ post) = Some ds"
    using agoHere_phrase [OF ds ws1 u unit ws2 a, of post] by (simp add: d)
  then show ?thesis
    by (simp add: matchAgo_skip [OF pre])
qed

lemma digitVal_digitChar: "d < 10 \<Longrightarrow> digitVal (digitChar d) = d"
proof -
  assume "d < 10"
  then have "d \<in> set [0, 1, 2, 3, 4, 5, 6, 7, 8, 9]" by auto
  then show ?thesis
    by (auto simp: digitVal_def digitChar_def)
qed

lemma isDigit_digitChar: "d < 10 \<Longrightarrow> isDigit (digitChar d)"
proof -
  assume "d < 10"
  then have "d \<in> set [0, 1, 2, 3, 4, 5, 6, 7, 8, 9]" by auto
  then show ?thesis
    by (auto simp: isDigit_def digitChar_def)
qed

lemma digitsValue_snoc: "digitsValue (ds @ [c]) = 10 * digitsValue ds + digitVal c"
  by (simp add: digitsValue_def)

lemma digitsValue_decimal: "digitsValue (decimal n) = n"
proof (induction n rule: decimal.induct)
  case (1 n)
  show ?case
  proof (cases "n < 10")
    case True
    then show ?thesis
      by (simp add: decimal.simps [of n] digitsValue_def digitVal_digitChar)
  next
    case False
    with 1 show ?thesis
      by (simp add: decimal.simps [of n] digitsValue_snoc digitVal_digitChar)
  qed
qed

lemma digits_decimal: "digits (decimal n)"
proof (induction n rule: decimal.induct)
  case (1 n)
  show ?case
  proof (cases "n < 10")
    case True
    then show ?thesis
      by (simp add: decimal.simps [of n] digits_def isDigit_digitChar)
  next
    case False
    with 1 show ?thesis
      by (simp add: decimal.simps [of n] digits_def isDigit_digitChar)
  qed
qed

lemma phrase_letters:
  assumes "digits ds" "spaces ws1" "spelt w u" "spaces ws2" "spelt ''ago'' a"
  shows "asciiLower ` set (ds @ ws1 @ u @ ws2 @ a)
           \<subseteq> Collect isDigit \<union> Collect isSpace \<union> set w \<union> set ''ago''"
proof -
  have "asciiLower ` set ds \<subseteq> Collect isDigit"
    using assms(1) isDigit_lower by (auto simp: digits_def list_all_iff)
  moreover have "asciiLower ` set ws1 \<subseteq> Collect isSpace" "asciiLower ` set ws2 \<subseteq> Collect isSpace"
    using assms(2,4) isSpace_lower by (auto simp: spaces_def list_all_iff)
  moreover have "asciiLower ` set u = set w" "asciiLower ` set a = set ''ago''"
    using assms(3,5) unfolding spelt_def by (metis set_map)+
  ultimately show ?thesis
    by (simp add: image_Un) blast
qed

lemma phrase_alone:
  assumes "digits ds" "spaces ws1" "spelt w u" "spaces ws2" "spelt ''ago'' a"
    and "set w \<subseteq> set ''daysweeks''"
  shows "\<not> testCI ''today'' (ds @ ws1 @ u @ ws2 @ a)"
    and "\<not> testCI ''yesterday'' (ds @ ws1 @ u @ ws2 @ a)"
    and "matchAgo ''hour'' (ds @ ws1 @ u @ ws2 @ a) = None"
proof -
  let ?L = "asciiLower ` set (ds @ ws1 @ u @ ws2 @ a)"
  have L: "?L \<subseteq> Collect isDigit \<union> Collect isSpace \<union> set ''daysweeks'' \<union> set ''ago''"
    using phrase_letters [OF assms(1-5)] assms(6) by blast
  have "CHR ''t'' \<notin> Collect isDigit \<union> Collect isSpace \<union> set ''daysweeks'' \<union> set ''ago''"
    and "CHR ''h'' \<notin> Collect isDigit \<union> Collect isSpace \<union> set ''daysweeks'' \<union> set ''ago''"
    by (simp_all add: isDigit_def isSpace_def)
  with L have t: "CHR ''t'' \<notin> ?L" and h: "CHR ''h'' \<notin> ?L"
    by blast+
  show "\<not> testCI ''today'' (ds @ ws1 @ u @ ws2 @ a)"
    using testCI_letters [of "''today''" "ds @ ws1 @ u @ ws2 @ a"] t by auto
  show "\<not> testCI ''yesterday'' (ds @ ws1 @ u @ ws2 @ a)"
    using testCI_letters [of "''yesterday''" "ds @ ws1 @ u @ ws2 @ a"] t by auto
  show "matchAgo ''hour'' (ds @ ws1 @ u @ ws2 @ a) = None"
    using h by (intro matchAgo_None) auto
qed

lemma weeks_alone:
  assumes "digits ds" "spaces ws1" "spelt ''week'' u \<or> spelt ''weeks'' u" "spaces ws2"
    "spelt ''ago'' a"
  shows "matchAgo ''day'' (ds @ ws1 @ u @ ws2 @ a) = None"
proof -
  let ?L = "asciiLower ` set (ds @ ws1 @ u @ ws2 @ a)"
  from assms(3) obtain w where w: "spelt w u" "set w \<subseteq> set ''weeks''"
    by auto
  have "?L \<subseteq> Collect isDigit \<union> Collect isSpace \<union> set ''weeks'' \<union> set ''ago''"
    using phrase_letters [OF assms(1,2) w(1) assms(4,5)] w(2) by blast
  moreover have "CHR ''d'' \<notin> Collect isDigit \<union> Collect isSpace \<union> set ''weeks'' \<union> set ''ago''"
    by (simp add: isDigit_def isSpace_def)
  ultimately have "CHR ''d'' \<notin> ?L"
    by blast
  then show ?thesis
    by (intro matchAgo_None) auto
qed

text \<open>
  In a time zone without clock changes, \<open>setDate(getDate() - n)\<close> subtracts \<open>n\<close> days
  of 24 hours and \<open>setHours(getHours() - n)\<close> subtracts \<open>n\<close> hours.
\<close>

lemma setDateBack_fixedOffset: "setDateBack (fixedOffset off) d n = d - int n * msPerDay"
  by (simp add: setDateBack_def fixedOffset_def)

lemma setHoursBack_fixedOffset: "setHoursBack (fixedOffset off) d n = d - int n * msPerHour"
  by (simp add: setHoursBack_def fixedOffset_def)

text \<open>
  C1, amended. The text holds a run of digits followed by white space, \<open>day\<close> or \<open>days\<close> in
  any case, white space and \<open>ago\<close>, and this is its first number phrase: no digit stands
  before it. Either the text is this phrase alone, or no earlier rule of the classifier
  fires on it (there is no \<open>today\<close>, no \<open>yesterday\<close> and no hours phrase). Then
  \<open>extractJobDate\<close> rejects exactly when the number \<open>N\<close> of the phrase exceeds 4, a constant
  of the function that no refinement changes, and otherwise returns now after
  \<open>setDate(getDate() - N)\<close>: the instant of the same local time of day \<open>N\<close> calendar days
  earlier, which in a time zone without clock changes is now minus \<open>N\<close> days of 24 hours.
  The decimal numeral of every \<open>n\<close> is such a run of digits, with value \<open>n\<close>.
\<close>

theorem extractJobDate_days_ago:
  assumes "list_all (\<lambda>c. \<not> isDigit c) pre" and "digits ds" and "spaces ws1"
    and "spelt ''day'' u \<or> spelt ''days'' u" and "spaces ws2" and "spelt ''ago'' a"
    and "text = pre @ ds @ ws1 @ u @ ws2 @ a @ post"
    and "pre = [] \<and> post = []
         \<or> \<not> testCI ''today'' text \<and> \<not> testCI ''yesterday'' text
            \<and> matchAgo ''hour'' text = None"
  shows "extractJobDate zone now text =
           (if 4 < digitsValue ds then None else Some (setDateBack zone now (digitsValue ds)))
         \<and> extractJobDate (fixedOffset off) now text =
           (if 4 < digitsValue ds then None else Some (now - int (digitsValue ds) * msPerDay))
         \<and> digits (decimal n) \<and> digitsValue (decimal n) = n"
proof -
  have "matchAgo ''day'' text = Some ds"
    unfolding assms(7) using assms(4)
    by (intro matchAgo_phrase assms(1,2,3,5,6)) (simp_all add: isSpace_def)
  moreover have "text \<noteq> []"
    using assms(2,7) by (auto simp: digits_def)
  moreover have "\<not> testCI ''today'' text \<and> \<not> testCI ''yesterday'' text
      \<and> matchAgo ''hour'' text = None"
    using assms(8)
  proof
    assume alone: "pre = [] \<and> post = []"
    from assms(4) obtain w where w: "spelt w u" "set w \<subseteq> set ''daysweeks''"
      by auto
    show ?thesis
      using phrase_alone [OF assms(2,3) w(1) assms(5,6) w(2)] alone assms(7) by simp
  qed
  ultimately show ?thesis
    by (simp add: extractJobDate_def digits_decimal digitsValue_decimal
        setDateBack_fixedOffset)
qed

text \<open>Facts that evaluate the character classes on literals.\<close>

lemmas char_eval = asciiLower_def upperAscii_def lowerAscii_def isDigit_def isSpace_def
  digitsValue_def digitVal_def

text \<open>
  In UTC, \<open>4 days ago\<close> gives now minus 4 days, \<open>5 days ago\<close> is rejected, and so is every
  larger number. In New York on 2023-11-07 at 12:00 local time, two days after the
  clocks went back, \<open>4 days ago\<close> gives 2023-11-03 at 12:00 local time, which is now minus
  4 days and 1 hour.
\<close>

theorem extractJobDate_days_ago_witness:
  "extractJobDate (fixedOffset 0) 1700000000000 ''4 days ago''
     = Some (1700000000000 - 4 * 86400000)
   \<and> extractJobDate (fixedOffset 0) 1700000000000 ''5 days ago'' = None
   \<and> extractJobDate (fixedOffset 0) 1700000000000 ''Posted 3 Days ago in Austin''
     = Some (1700000000000 - 3 * 86400000)
   \<and> extractJobDate newYork2023 1699376400000 ''4 days ago''
     = Some (1699376400000 - 4 * 86400000 - 3600000)"
  using extractJobDate_days_ago [of "[]" "''4''" "'' ''" "''days''" "'' ''" "''ago''"
      "''4 days ago''" "[]" "fixedOffset 0" 1700000000000 0 0]
    extractJobDate_days_ago [of "[]" "''5''" "'' ''" "''days''" "'' ''" "''ago''"
      "''5 days ago''" "[]" "fixedOffset 0" 1700000000000 0 0]
    extractJobDate_days_ago [of "''Posted ''" "''3''" "'' ''" "''Days''" "'' ''" "''ago''"
      "''Posted 3 Days ago in Austin''" "'' in Austin''" "fixedOffset 0" 1700000000000 0 0]
    extractJobDate_days_ago [of "[]" "''4''" "'' ''" "''days''" "'' ''" "''ago''"
      "''4 days ago''" "[]" newYork2023 1699376400000 0 0]
  by (simp add: digits_def spaces_def spelt_def char_eval msPerDay_def msPerHour_def
      matchesCI_def agoHere_def some1_def unitAgoHere_def
      setDateBack_def fixedOffset_def newYork2023_def)

text \<open>
  C1, as the claim states it, fails: with a freshness window \<open>dateRange\<close> of 3 days, the
  default of the pipeline, a posting that is 4 days old exceeds the window and is accepted.
\<close>

theorem extractJobDate_ignores_dateRange:
  "dateRange defaultRefinements = 3
   \<and> extractJobDate (fixedOffset 0) 1700000000000 ''4 days ago''
     = Some (1700000000000 - 4 * 86400000)"
  by (simp add: defaultRefinements_def extractJobDate_def matchesCI_def some1_def
      unitAgoHere_def agoHere_def char_eval msPerDay_def setDateBack_def fixedOffset_def)

text \<open>
  C2, amended. The text holds a first run of digits followed by white space, \<open>week\<close> or
  \<open>weeks\<close> in any case, white space and \<open>ago\<close>; either it is this phrase alone, or no
  earlier rule fires on it (no \<open>today\<close>, no \<open>yesterday\<close>, no hours phrase and no days
  phrase). Then \<open>extractJobDate\<close> rejects when the number is at least 1, and accepts when
  the number is 0, with now after \<open>setDate(getDate() - 0)\<close>: the instant of the local time
  of now, which in a time zone without clock changes is now.
\<close>

theorem extractJobDate_weeks_ago:
  assumes "list_all (\<lambda>c. \<not> isDigit c) pre" and "digits ds" and "spaces ws1"
    and "spelt ''week'' u \<or> spelt ''weeks'' u" and "spaces ws2" and "spelt ''ago'' a"
    and "text = pre @ ds @ ws1 @ u @ ws2 @ a @ post"
    and "pre = [] \<and> post = []
         \<or> \<not> testCI ''today'' text \<and> \<not> testCI ''yesterday'' text
            \<and> matchAgo ''hour'' text = None \<and> matchAgo ''day'' text = None"
  shows "extractJobDate zone now text =
           (if 1 \<le> digitsValue ds then None else Some (utcTime zone (localTime zone now)))
         \<and> extractJobDate (fixedOffset off) now text =
           (if 1 \<le> digitsValue ds then None else Some now)
         \<and> digits (decimal n) \<and> digitsValue (decimal n) = n"
proof -
  have "matchAgo ''week'' text = Some ds"
    unfolding assms(7) using assms(4)
    by (intro matchAgo_phrase assms(1,2,3,5,6)) (simp_all add: isSpace_def)
  moreover have "text \<noteq> []"
    using assms(2,7) by (auto simp: digits_def)
  moreover have "\<not> testCI ''today'' text \<and> \<not> testCI ''yesterday'' text
      \<and> matchAgo ''hour'' text = None \<and> matchAgo ''day'' text = None"
    using assms(8)
  proof
    assume alone: "pre = [] \<and> post = []"
    from assms(4) obtain w where w: "spelt w u" "set w \<subseteq> set ''daysweeks''"
      by auto
    show ?thesis
      using phrase_alone [OF assms(2,3) w(1) assms(5,6) w(2)]
        weeks_alone [OF assms(2,3,4,5,6)] alone assms(7) by simp
  qed
  ultimately show ?thesis
    by (cases "digitsValue ds = 0")
      (simp_all add: extractJobDate_def digits_decimal digitsValue_decimal
        setDateBack_def fixedOffset_def)
qed

theorem extractJobDate_weeks_ago_witness:
  "extractJobDate (fixedOffset 0) 1700000000000 ''2 weeks ago'' = None
   \<and> extractJobDate (fixedOffset 0) 1700000000000 ''1 week ago'' = None
   \<and> extractJobDate (fixedOffset 0) 1700000000000 ''Posted 3 weeks ago'' = None
   \<and> extractJobDate newYork2023 1699376400000 ''2 weeks ago'' = None"
  using extractJobDate_weeks_ago [of "[]" "''2''" "'' ''" "''weeks''" "'' ''" "''ago''"
      "''2 weeks ago''" "[]" "fixedOffset 0" 1700000000000 0 0]
    extractJobDate_weeks_ago [of "[]" "''1''" "'' ''" "''week''" "'' ''" "''ago''"
      "''1 week ago''" "[]" "fixedOffset 0" 1700000000000 0 0]
    extractJobDate_weeks_ago [of "''Posted ''" "''3''" "'' ''" "''weeks''" "'' ''" "''ago''"
      "''Posted 3 weeks ago''" "[]" "fixedOffset 0" 1700000000000 0 0]
    extractJobDate_weeks_ago [of "[]" "''2''" "'' ''" "''weeks''" "'' ''" "''ago''"
      "''2 weeks ago''" "[]" newYork2023 1699376400000 0 0]
  by (simp add: digits_def spaces_def spelt_def char_eval
      matchesCI_def agoHere_def some1_def unitAgoHere_def)

text \<open>
  C2, as the claim states it, fails: the accept branch for weeks is reached by
  \<open>0 weeks ago\<close>, and a text with a weeks phrase is accepted when an earlier rule fires.
\<close>

theorem extractJobDate_weeks_accepted:
  "extractJobDate (fixedOffset 0) 1700000000000 ''0 weeks ago'' = Some 1700000000000
   \<and> extractJobDate (fixedOffset 0) 1700000000000 ''Posted today, reposted 2 weeks ago''
     = Some 1700000000000"
  by (simp add: extractJobDate_def matchesCI_def some1_def
      unitAgoHere_def agoHere_def char_eval msPerDay_def setDateBack_def fixedOffset_def)

section \<open>Properties of the deduplication\<close>

lemma set_update_subset: "set (AList.update k v ps) \<subseteq> insert (k, v) (set ps)"
  by (induction ps) auto

lemma distinct_update:
  assumes "distinct (map f (map snd ps))" "f v \<notin> f ` snd ` set ps"
  shows "distinct (map f (map snd (AList.update k v ps)))"
  using assms
proof (induction ps)
  case Nil
  then show ?case by simp
next
  case (Cons p ps)
  have "b = v \<or> b \<in> snd ` set ps" if "(a, b) \<in> set (AList.update k v ps)" for a b
    using set_update_subset [of k v ps] that by force
  with Cons show ?case
    by (fastforce simp: image_iff)
qed

lemma dedupStep_inv:
  assumes "dedupInv st J" "job \<in> J"
  shows "dedupInv (dedupStep st job) J"
proof -
  obtain U S where st: "st = (U, S)" by (cases st)
  show ?thesis
  proof (cases "dedupStep st job = st")
    case True
    with assms show ?thesis by simp
  next
    case False
    then have new: "dedupStep st job = (AList.update (jobId job) job U, insert (titleCompany job) S)"
      and ok: "sufficientData job" "titleCompany job \<notin> S"
      by (auto simp: dedupStep_def st sufficientData_def split: if_splits)
    have inS: "\<forall>(k, j) \<in> set U. titleCompany j \<in> S \<and> sufficientData j \<and> j \<in> J"
      and dist: "distinct (map titleCompany (map snd U))"
      using assms(1) by (auto simp: dedupInv_def st)
    have "titleCompany job \<notin> titleCompany ` snd ` set U"
      using inS ok(2) by force
    then have "distinct (map titleCompany (map snd (AList.update (jobId job) job U)))"
      using dist by (rule distinct_update [rotated])
    moreover have "\<forall>(k, j) \<in> set (AList.update (jobId job) job U).
        titleCompany j \<in> insert (titleCompany job) S \<and> sufficientData j \<and> j \<in> J"
      using set_update_subset [of "jobId job" job U] inS ok(1) assms(2) by fastforce
    ultimately show ?thesis
      by (simp add: new dedupInv_def)
  qed
qed

lemma foldl_dedup_inv:
  "dedupInv st J \<Longrightarrow> set jobs \<subseteq> J \<Longrightarrow> dedupInv (foldl dedupStep st jobs) J"
  by (induction jobs arbitrary: st) (auto simp: dedupStep_inv)

lemma removeDuplicateJobs_inv:
  "distinct (map titleCompany (removeDuplicateJobs jobs))
   \<and> set (removeDuplicateJobs jobs) \<subseteq> {job \<in> set jobs. sufficientData job}"
proof -
  have "dedupInv ([], {}) (set jobs)"
    by (simp add: dedupInv_def)
  then have "dedupInv (foldl dedupStep ([], {}) jobs) (set jobs)"
    by (rule foldl_dedup_inv) simp
  then show ?thesis
    unfolding removeDuplicateJobs_def dedupInv_def
    by (cases "foldl dedupStep ([], {}) jobs") force
qed

lemma removeDuplicateJobs_pair:
  assumes "sufficientData a" "sufficientData b" "title a = title b" "company a = company b"
  shows "removeDuplicateJobs [a, b] = [a]"
proof -
  have "description a \<noteq> []" "description b \<noteq> []"
    using assms(1,2) by (auto simp: sufficientData_def)
  then show ?thesis
    using assms
    by (simp add: removeDuplicateJobs_def dedupStep_def sufficientData_def titleCompany_def)
qed


text \<open>
  C5, amended. Of two listings that both pass the guards of the loop (title and company
  present, title not \<open>Job Opening\<close>, description of at least 100 characters) and have the
  same title and company, exactly the first survives. In any run no two survivors share
  a title-company signature, and every survivor is a listing of the input that passes
  the guards.
\<close>

theorem removeDuplicateJobs_first_wins:
  "(sufficientData a \<and> sufficientData b \<and> title a = title b \<and> company a = company b
      \<longrightarrow> removeDuplicateJobs [a, b] = [a])
   \<and> distinct (map titleCompany (removeDuplicateJobs jobs))
   \<and> set (removeDuplicateJobs jobs) \<subseteq> {job \<in> set jobs. sufficientData job}"
  using removeDuplicateJobs_pair [of a b] removeDuplicateJobs_inv [of jobs] by blast

theorem removeDuplicateJobs_first_wins_witness:
  "removeDuplicateJobs [longJob, repostedJob longJob] = [longJob]
   \<and> jobId longJob \<noteq> jobId (repostedJob longJob)
   \<and> sourceUrl longJob \<noteq> sourceUrl (repostedJob longJob)"
  using removeDuplicateJobs_first_wins [of longJob "repostedJob longJob" "[]"]
  by (simp add: sufficientData_def longJob_def repostedJob_def exampleJob_def)

text \<open>
  C5, as the claim states it, fails: of two listings with the same title and company and
  different ids and source URLs, none survives when their descriptions are short.
\<close>

theorem removeDuplicateJobs_drops_both:
  "title exampleJob = title (repostedJob exampleJob)
   \<and> company exampleJob = company (repostedJob exampleJob)
   \<and> jobId exampleJob \<noteq> jobId (repostedJob exampleJob)
   \<and> sourceUrl exampleJob \<noteq> sourceUrl (repostedJob exampleJob)
   \<and> removeDuplicateJobs [exampleJob, repostedJob exampleJob] = []"
  by (simp add: removeDuplicateJobs_def dedupStep_def repostedJob_def exampleJob_def)

text \<open>Facts that evaluate \<open>toLowerCase\<close> on literals.\<close>

lemmas lower_eval = toLowerCase_def toLowerChar_def upperAscii_def lowerAscii_def
  upperLatin1_def lowerLatin1_def

text \<open>
  The title-location signature is looked up and never recorded: two listings with the
  same title and location and different companies both survive.
\<close>

lemma removeDuplicateJobs_same_title_location:
  "titleLocation longJob = titleLocation (repostedJob (longJob\<lparr>company := ''Other Co''\<rparr>))
   \<and> removeDuplicateJobs [longJob, repostedJob (longJob\<lparr>company := ''Other Co''\<rparr>)]
       = [longJob, repostedJob (longJob\<lparr>company := ''Other Co''\<rparr>)]"
  by (simp add: removeDuplicateJobs_def dedupStep_def titleCompany_def titleLocation_def
      longJob_def repostedJob_def exampleJob_def lower_eval trim_def isSpace_def)


section \<open>Properties of the final ordering\<close>

lemma compareJobs_le: "(compareJobs a b \<le> 0) = newestThenBest a b"
  by (auto simp: compareJobs_def newestThenBest_def Let_def)

lemma newestThenBest_total: "newestThenBest a b \<or> newestThenBest b a"
  by (auto simp: newestThenBest_def)

lemma newestThenBest_trans: "newestThenBest a b \<Longrightarrow> newestThenBest b c \<Longrightarrow> newestThenBest a c"
  by (auto simp: newestThenBest_def)

lemma set_insort_cmp: "set (insort_cmp cmp x xs) = insert x (set xs)"
  by (induction xs) auto

lemma mset_insort_cmp: "mset (insort_cmp cmp x xs) = add_mset x (mset xs)"
  by (induction xs) auto

lemma mset_sort_cmp: "mset (sort_cmp cmp xs) = mset xs"
  by (induction xs) (simp_all add: sort_cmp_def mset_insort_cmp)

lemma sorted_insort_jobs:
  "sorted_wrt newestThenBest xs \<Longrightarrow> sorted_wrt newestThenBest (insort_cmp compareJobs x xs)"
proof (induction xs)
  case Nil
  then show ?case by simp
next
  case (Cons y ys)
  show ?case
  proof (cases "compareJobs x y \<le> 0")
    case True
    then have "newestThenBest x y" by (simp add: compareJobs_le)
    with Cons.prems show ?thesis
      using True newestThenBest_trans [of x y] by auto
  next
    case False
    then have "newestThenBest y x"
      using newestThenBest_total [of x y] by (simp add: compareJobs_le)
    with Cons show ?thesis
      using False by (auto simp: set_insort_cmp)
  qed
qed

lemma sorted_sort_jobs: "sorted_wrt newestThenBest (sort_cmp compareJobs xs)"
  by (induction xs) (simp_all add: sort_cmp_def sorted_insort_jobs)

lemma sorted_wrt_take: "sorted_wrt P xs \<Longrightarrow> sorted_wrt P (take n xs)"
  by (metis append_take_drop_id sorted_wrt_append)

text \<open>
  C8. The list \<open>searchWithRefinements\<close> returns is sorted by posted date descending and,
  among equal dates, by match score descending. It is the first 20 listings of a
  rearrangement of the fresh, deduplicated, quality-filtered listings that is sorted in
  this way: nothing reorders the list after the sort.
\<close>

theorem searchWithRefinements_sorted:
  "sorted_wrt newestThenBest (searchWithRefinements now collected)
   \<and> (\<exists>ordered.
         mset ordered = mset (filterQualityJobs (removeDuplicateJobs (filter (freshEnough now) allJobs)))
         \<and> sorted_wrt newestThenBest ordered
         \<and> searchWithRefinements now (Returned allJobs) = take 20 ordered)"
proof -
  let ?kept = "filterQualityJobs (removeDuplicateJobs (filter (freshEnough now) allJobs))"
  have "sorted_wrt newestThenBest (searchWithRefinements now collected)"
    by (cases collected) (simp_all add: searchWithRefinements_def sorted_wrt_take sorted_sort_jobs)
  moreover have "mset (sort_cmp compareJobs ?kept) = mset ?kept
      \<and> sorted_wrt newestThenBest (sort_cmp compareJobs ?kept)
      \<and> searchWithRefinements now (Returned allJobs) = take 20 (sort_cmp compareJobs ?kept)"
    by (simp add: mset_sort_cmp sorted_sort_jobs searchWithRefinements_def)
  ultimately show ?thesis by blast
qed

section \<open>Properties of the defensive JSON parsing\<close>

text \<open>
  Facts that evaluate the cleaning and repair steps on literals.
\<close>

lemmas json_eval = cleanText_def replaceAll_def fenceHere_def trim_def isSpace_def locateJson_def
  spanHere_def isLineTerminator_def repairJson_def keyHere_def quotedHere_def commaHere_def
  undefinedHere_def isIdentStart_def isIdentChar_def isDigit_def dquote_def squote_def
  upperAscii_def lowerAscii_def matchesCI_def asciiLower_def

text \<open>
  C4, as the claim states it, fails: on a text without any JSON span, and on a text whose
  span does not decode, the pipeline fails and \<open>safeJsonParse\<close> returns the default
  refinement structure, not \<open>null\<close>, because the text contains \<open>refinements\<close>.
\<close>

theorem safeJsonParse_substitute:
  "repairAndParse rejectAll ''refinements'' = None
   \<and> safeJsonParse rejectAll ''refinements'' = Inr defaultsNoJson
   \<and> repairAndParse rejectAll ''{refinements}'' = None
   \<and> safeJsonParse rejectAll ''{refinements}'' = Inr defaultsParseFailed
   \<and> defaultsNoJson \<noteq> JNull \<and> defaultsParseFailed \<noteq> JNull"
  by code_simp

text \<open>
  C4, amended. \<open>safeJsonParse\<close> never throws. When the pipeline succeeds it returns the
  decoded value. When the pipeline fails it returns \<open>null\<close>, unless the text contains
  \<open>refinements\<close> (or, when the located span does not decode, \<open>missingInfo\<close>): then it
  returns the default refinement structure of the step that failed.
\<close>

theorem safeJsonParse_failure_contract:
  "(\<exists>v. safeJsonParse parse text = Inr v)
   \<and> safeJsonParse parse text =
       Inr (case repairAndParse parse text of
              Some v \<Rightarrow> v
            | None \<Rightarrow>
                if locateJson (cleanText text) = None
                then (if includes_str text ''refinements'' then defaultsNoJson else JNull)
                else (if includes_str text ''refinements'' \<or> includes_str text ''missingInfo''
                      then defaultsParseFailed else JNull))"
proof (cases "text = []")
  case True
  then show ?thesis
    by (simp add: safeJsonParse_def repairAndParse_def json_eval)
next
  case False
  then show ?thesis
    by (auto simp: safeJsonParse_def safeJsonParse_try_def repairAndParse_def Let_def
        split: option.splits)
qed

section \<open>Properties of the structuring\<close>










section \<open>Properties of the page fetcher\<close>

text \<open>
  The record after the JSON-LD step, field by field.
\<close>

lemma mergeJsonLd_fields:
  "mergeJsonLd parse (heuristicJob page url) (jsonLd page) =
     \<lparr> jd_url = url,
       jd_title = domFirst (extractText (titleTexts page)) (jobPosting parse page) [''title''],
       jd_company = domFirst (extractText (companyTexts page)) (jobPosting parse page)
                      [''hiringOrganization'', ''name''],
       jd_location = domFirst (extractText (locationTexts page)) (jobPosting parse page)
                      [''jobLocation'', ''address'', ''addressLocality''],
       jd_salary = domFirst (extractText (salaryTexts page)) (jobPosting parse page)
                      [''baseSalary'', ''value'', ''value''],
       jd_description = domFirst (take 5000 (extractText (descriptionTexts page)))
                      (jobPosting parse page) [''description''],
       jd_employmentType = JStr (extractText (employmentTexts page)) \<rparr>"
proof (cases "jobPosting parse page")
  case None
  then show ?thesis
    by (auto simp: mergeJsonLd_def mergeJsonLd_try_def jobPosting_def heuristicJob_def
        domFirst_def split: option.splits if_splits)
next
  case (Some data)
  then obtain html where ld: "jsonLd page = Some html" "html \<noteq> []" "parse html = Some data"
    "data \<noteq> JNull" "data \<noteq> JUndefined" "propOf data ''@type'' = JStr ''JobPosting''"
    by (auto simp: jobPosting_def split: option.splits if_splits)
  have top: "optProp data k = propOf data k" for k
    using ld(4,5) by (cases data) (simp_all add: optProp_def)
  show ?thesis
    using ld Some
    by (simp add: mergeJsonLd_def mergeJsonLd_try_def heuristicJob_def domFirst_def
        orElse_def jsTruthy_def top)
qed

text \<open>
  C10, amended. For an unrecognised domain, when \<open>extractJobData\<close> returns a single job
  record, each of title, company, location, salary and description is the heuristic DOM
  text when that is non-empty; the JSON-LD field of a \<open>JobPosting\<close> is used only where
  the DOM text is empty.
\<close>

theorem extractJobData_dom_value_first:
  assumes "siteOf url = None" and "extractJobData parse page url = Single job"
  shows "jd_title job = domFirst (extractText (titleTexts page)) (jobPosting parse page) [''title'']
    \<and> jd_company job = domFirst (extractText (companyTexts page)) (jobPosting parse page)
                          [''hiringOrganization'', ''name'']
    \<and> jd_location job = domFirst (extractText (locationTexts page)) (jobPosting parse page)
                          [''jobLocation'', ''address'', ''addressLocality'']
    \<and> jd_salary job = domFirst (extractText (salaryTexts page)) (jobPosting parse page)
                          [''baseSalary'', ''value'', ''value'']
    \<and> jd_description job = domFirst (take 5000 (extractText (descriptionTexts page)))
                          (jobPosting parse page) [''description'']"
proof -
  from assms have "job = mergeJsonLd parse (heuristicJob page url) (jsonLd page)"
    by (auto simp: extractJobData_def Let_def split: if_splits)
  then show ?thesis
    by (simp add: mergeJsonLd_fields)
qed

text \<open>
  Facts that evaluate \<open>extractJobData\<close> on the example page.
\<close>

lemmas page_eval = extractJobData_def siteOf_def careersUrl_def careersPage_def mergeJsonLd_def
  mergeJsonLd_try_def heuristicJob_def ldParse_def ldData_def propOf_def optProp_def orElse_def
  jsTruthy_def trim_def isSpace_def jobPosting_def domFirst_def

lemma careers_unrecognized: "siteOf careersUrl = None"
  by (simp add: siteOf_def careersUrl_def)

lemma ldText_nonempty: "ldText \<noteq> []"
  by (simp add: ldText_def)

lemma careers_single:
  "extractJobData ldParse careersPage careersUrl
     = Single \<lparr> jd_url = careersUrl, jd_title = JStr ''Senior Engineer'',
                jd_company = JStr ''Acme Co'', jd_location = JUndefined,
                jd_salary = JNum 85000, jd_description = JStr ''We build things with Python.'',
                jd_employmentType = JStr [] \<rparr>"
  using ldText_nonempty by (simp add: page_eval careers_unrecognized [unfolded careersUrl_def])

text \<open>
  C10, as the claim states it, fails: the page has the title \<open>Senior Engineer\<close> in the
  DOM and \<open>Staff Engineer\<close> in its \<open>JobPosting\<close> data, and the returned record holds the
  DOM title.
\<close>

theorem extractJobData_dom_title_kept:
  "siteOf careersUrl = None
   \<and> extractText (titleTexts careersPage) = ''Senior Engineer''
   \<and> jobPosting ldParse careersPage = Some ldData
   \<and> propOf ldData ''title'' = JStr ''Staff Engineer''
   \<and> (\<exists>job. extractJobData ldParse careersPage careersUrl = Single job
          \<and> jd_title job = JStr ''Senior Engineer''
          \<and> jd_title job \<noteq> propOf ldData ''title'')"
  using ldText_nonempty
  by (simp add: careers_single careers_unrecognized)
     (simp add: jobPosting_def careersPage_def ldParse_def ldData_def propOf_def trim_def isSpace_def)

theorem extractJobData_dom_value_first_witness:
  "siteOf careersUrl = None
   \<and> (\<exists>job. extractJobData ldParse careersPage careersUrl = Single job
          \<and> jd_title job = JStr ''Senior Engineer''
          \<and> jd_salary job = JNum 85000)"
  using extractJobData_dom_value_first [OF careers_unrecognized careers_single]
  by (simp add: careers_single careers_unrecognized)

end
